theory Spec2Isabelle
  imports Complex_Main
begin

section \<open>Numbers, clocks and the store\<close>

text \<open>
  The services compute on JavaScript numbers. Finite numbers are modelled as \<^typ>\<open>real\<close>
  (binary rounding is not modelled); the one place where the source can leave the finite
  numbers is a division, whose result is a \<open>jsnum\<close>: a finite number, an infinity or NaN.
  Instants (\<open>Date.getTime()\<close> of a valid date, \<open>Date.now()\<close>) are integers, milliseconds
  since the epoch.
\<close>

datatype jsnum = Num real | PosInf | NegInf | NaN

text \<open>\<open>a / b\<close> of two finite numbers; a zero divisor is the \<open>+0\<close> that a difference of
  equal numbers yields.\<close>

definition js_div :: "real \<Rightarrow> real \<Rightarrow> jsnum" where
  "js_div a b =
     (if b \<noteq> 0 then Num (a / b)
      else if a > 0 then PosInf
      else if a < 0 then NegInf
      else NaN)"

text \<open>\<open>x > t\<close> and \<open>x < t\<close> for a finite \<open>t\<close>; every comparison with NaN is false.\<close>

fun js_gt :: "jsnum \<Rightarrow> real \<Rightarrow> bool" where
  "js_gt (Num x) t = (x > t)"
| "js_gt PosInf t = True"
| "js_gt NegInf t = False"
| "js_gt NaN t = False"

fun js_lt :: "jsnum \<Rightarrow> real \<Rightarrow> bool" where
  "js_lt (Num x) t = (x < t)"
| "js_lt PosInf t = False"
| "js_lt NegInf t = True"
| "js_lt NaN t = False"

text \<open>\<open>Math.abs\<close>.\<close>

fun js_abs :: "jsnum \<Rightarrow> jsnum" where
  "js_abs (Num x) = Num \<bar>x\<bar>"
| "js_abs PosInf = PosInf"
| "js_abs NegInf = PosInf"
| "js_abs NaN = NaN"

text \<open>\<open>Math.round\<close> on a finite number: the nearest integer, halves upwards.\<close>

definition js_round :: "real \<Rightarrow> int" where
  "js_round x = \<lfloor>x + 1 / 2\<rfloor>"

text \<open>\<open>v || d\<close> for an optional numeric setting: an absent setting and the number 0 are
  both falsy, so both give the default.\<close>

definition or_default :: "real option \<Rightarrow> real \<Rightarrow> real" where
  "or_default v d = (case v of None \<Rightarrow> d | Some x \<Rightarrow> if x = 0 then d else x)"

text \<open>
  The database is outside the program. A table is the list of its rows; a read that the
  store fails to answer gives \<open>None\<close> (the client's \<open>data: null\<close>), and the store's answer
  to an insert is \<open>Accepted\<close> or \<open>Rejected\<close> (the client's \<open>error\<close>).
\<close>

datatype store_reply = Accepted | Rejected

section \<open>Data of the alert pipeline\<close>

text \<open>\<open>RealVehicleData\<close> (the fields the rules read).\<close>

record vehicle_data =
  deviceId :: string
  vehicleId :: string
  latitude :: real
  longitude :: real
  speed :: real
  heading :: real
  timestamp :: int
  engineStatus :: string
  fuelLevel :: "real option"
  odometer :: "real option"

text \<open>\<open>AlertRule.conditions\<close> is free-form; these are the settings the rules read.\<close>

record conditions =
  tolerance :: "real option"
  harshAcceleration :: "real option"
  harshBraking :: "real option"
  offlineThreshold :: "real option"

record alert_rule =
  rule_organizationId :: string
  rule_name :: string
  rule_type :: string
  rule_conditions :: conditions
  rule_enabled :: bool

text \<open>The rule-specific \<open>metadata\<close> object of a candidate.\<close>

datatype metadata =
    MetaSpeeding real real real
  | MetaGeofence string
  | MetaAcceleration jsnum
  | MetaDeceleration jsnum
  | MetaOffline int
  | MetaFuel real real real

text \<open>
  The argument of \<open>createAlert\<close>: a \<open>ProcessedAlert\<close> without id, acknowledged and resolved.
  The \<open>message\<close> (a display string built by number formatting) is left out.
\<close>

record alert_data =
  alert_organizationId :: string
  alert_vehicleId :: string
  alertType :: string
  severity :: string
  title :: string
  location :: "(real \<times> real) option"
  alert_timestamp :: int
  alert_metadata :: metadata

text \<open>A row of the \<open>location_updates\<close> table (the columns the rules select).\<close>

record location_row =
  loc_vehicle_id :: string
  loc_latitude :: real
  loc_longitude :: real
  loc_speed :: real
  loc_timestamp :: int
  loc_fuel_level :: "real option"

text \<open>A row of the \<open>alerts\<close> table; \<open>created_at\<close> is set by the store on insert.\<close>

record alert_row =
  organization_id :: string
  vehicle_id :: string
  alert_type :: string
  row_severity :: string
  row_title :: string
  location_latitude :: "real option"
  location_longitude :: "real option"
  acknowledged :: bool
  resolved :: bool
  created_at :: int

text \<open>
  \<open>.eq('vehicle_id', v).order('timestamp', {ascending: false}).limit(n)\<close> on
  \<open>location_updates\<close>: the \<open>n\<close> newest rows of the vehicle, newest first. Among rows with
  equal timestamps the store is free to choose; the model takes the later row of the
  table first.
\<close>

definition recent_rows :: "string \<Rightarrow> nat \<Rightarrow> location_row list \<Rightarrow> location_row list" where
  "recent_rows v n tbl =
     take n (rev (sort_key loc_timestamp (filter (\<lambda>r. loc_vehicle_id r = v) tbl)))"

section \<open>RealTimeAlertService: the rules\<close>

text \<open>
  Each rule is modelled by the list of candidates it hands to \<open>createAlert\<close>, in order.
  \<open>checkSpeedingViolation\<close> takes the value that \<open>getSpeedLimit\<close> resolved.
\<close>

definition checkSpeedingViolation :: "alert_rule \<Rightarrow> vehicle_data \<Rightarrow> real \<Rightarrow> alert_data list" where
  "checkSpeedingViolation rule data speedLimit =
     (let tol = or_default (tolerance (rule_conditions rule)) 5 in
      if speed data > speedLimit + tol then
        [\<lparr> alert_organizationId = rule_organizationId rule,
           alert_vehicleId = vehicleId data,
           alertType = ''speeding'',
           severity = (if speed data > speedLimit + 20 then ''high''
                       else if speed data > speedLimit + 10 then ''medium''
                       else ''low''),
           title = ''Speeding Violation'',
           location = Some (latitude data, longitude data),
           alert_timestamp = timestamp data,
           alert_metadata = MetaSpeeding (speed data) speedLimit (speed data - speedLimit) \<rparr>]
      else [])"

text \<open>
  \<open>checkHarshDriving\<close>: \<open>recentLocations\<close> is the reply to the query for the three newest
  stored samples of the vehicle (\<open>None\<close>: no reply); \<open>previous\<close> is its first row.
\<close>

definition checkHarshDriving ::
  "alert_rule \<Rightarrow> vehicle_data \<Rightarrow> location_row list option \<Rightarrow> alert_data list" where
  "checkHarshDriving rule data recentLocations =
     (case recentLocations of
        None \<Rightarrow> []
      | Some rows \<Rightarrow>
          if length rows < 2 then []
          else
            (let previous = hd rows;
                 timeDiff = real_of_int (timestamp data - loc_timestamp previous) / 1000;
                 speedDiff = speed data - loc_speed previous;
                 acceleration = js_div speedDiff timeDiff;
                 harshAccelThreshold = or_default (harshAcceleration (rule_conditions rule)) 8;
                 harshBrakeThreshold = or_default (harshBraking (rule_conditions rule)) (- 8)
             in
               if js_gt acceleration harshAccelThreshold then
                 [\<lparr> alert_organizationId = rule_organizationId rule,
                    alert_vehicleId = vehicleId data,
                    alertType = ''harsh_acceleration'',
                    severity = ''medium'',
                    title = ''Harsh Acceleration Detected'',
                    location = Some (latitude data, longitude data),
                    alert_timestamp = timestamp data,
                    alert_metadata = MetaAcceleration acceleration \<rparr>]
               else if js_lt acceleration harshBrakeThreshold then
                 [\<lparr> alert_organizationId = rule_organizationId rule,
                    alert_vehicleId = vehicleId data,
                    alertType = ''harsh_braking'',
                    severity = ''medium'',
                    title = ''Harsh Braking Detected'',
                    location = Some (latitude data, longitude data),
                    alert_timestamp = timestamp data,
                    alert_metadata = MetaDeceleration (js_abs acceleration) \<rparr>]
               else []))"

text \<open>
  \<open>checkDeviceOffline\<close>, evaluated at the wall-clock instant \<open>now\<close>.
\<close>

definition checkDeviceOffline :: "alert_rule \<Rightarrow> vehicle_data \<Rightarrow> int \<Rightarrow> alert_data list" where
  "checkDeviceOffline rule data now =
     (let threshold = or_default (offlineThreshold (rule_conditions rule)) 5;
          timeSinceUpdate = real_of_int (now - timestamp data) / 60000
      in
        if timeSinceUpdate > threshold then
          [\<lparr> alert_organizationId = rule_organizationId rule,
             alert_vehicleId = vehicleId data,
             alertType = ''device_offline'',
             severity = ''high'',
             title = ''Device Offline'',
             location = None,
             alert_timestamp = now,
             alert_metadata = MetaOffline (js_round timeSinceUpdate) \<rparr>]
        else [])"

text \<open>
  \<open>checkFuelTheft\<close>: \<open>!data.fuelLevel\<close> holds for an absent level and for the level 0.
  \<open>recentFuel\<close> is the reply to the query for the five newest samples that carry a fuel
  level.
\<close>

definition checkFuelTheft ::
  "alert_rule \<Rightarrow> vehicle_data \<Rightarrow> location_row list option \<Rightarrow> alert_data list" where
  "checkFuelTheft rule data recentFuel =
     (case fuelLevel data of
        None \<Rightarrow> []
      | Some level \<Rightarrow>
          if level = 0 then []
          else
            (case recentFuel of
               None \<Rightarrow> []
             | Some rows \<Rightarrow>
                 if length rows < 2 then []
                 else
                   (let previousLevel = (case loc_fuel_level (hd rows) of Some f \<Rightarrow> f | None \<Rightarrow> 0);
                        fuelDrop = previousLevel - level;
                        timeDiff = real_of_int (timestamp data - loc_timestamp (hd rows)) / 60000
                    in
                      if fuelDrop > 20 \<and> speed data < 5 \<and> timeDiff < 30 then
                        [\<lparr> alert_organizationId = rule_organizationId rule,
                           alert_vehicleId = vehicleId data,
                           alertType = ''fuel_theft'',
                           severity = ''critical'',
                           title = ''Potential Fuel Theft'',
                           location = Some (latitude data, longitude data),
                           alert_timestamp = timestamp data,
                           alert_metadata = MetaFuel fuelDrop previousLevel level \<rparr>]
                      else [])))"

text \<open>The query of \<open>checkFuelTheft\<close>: the newest rows of the vehicle whose fuel level is set.\<close>

definition recent_fuel_rows :: "string \<Rightarrow> location_row list \<Rightarrow> location_row list" where
  "recent_fuel_rows v tbl = recent_rows v 5 (filter (\<lambda>r. loc_fuel_level r \<noteq> None) tbl)"

section \<open>RealTimeAlertService: createAlert\<close>

text \<open>
  \<open>createAlert\<close> at the instant \<open>now\<close> of the caller's clock. \<open>answers\<close> tells whether the
  store answers the duplicate query (if it does not, \<open>existingAlert\<close> is null and the
  insert goes ahead); \<open>reply\<close> is the store's answer to the insert, and \<open>db_now\<close> the instant
  the store writes into \<open>created_at\<close>. A rejected insert throws, the enclosing \<open>catch\<close>
  logs, and nothing is persisted. Notifications and the broadcast follow the insert and
  do not touch the table.
\<close>

definition is_duplicate_of :: "alert_data \<Rightarrow> int \<Rightarrow> alert_row \<Rightarrow> bool" where
  "is_duplicate_of alertData thirtyMinutesAgo r =
     (organization_id r = alert_organizationId alertData \<and>
      vehicle_id r = alert_vehicleId alertData \<and>
      alert_type r = alertType alertData \<and>
      created_at r \<ge> thirtyMinutesAgo)"

definition new_alert_row :: "alert_data \<Rightarrow> int \<Rightarrow> alert_row" where
  "new_alert_row alertData db_now =
     \<lparr> organization_id = alert_organizationId alertData,
       vehicle_id = alert_vehicleId alertData,
       alert_type = alertType alertData,
       row_severity = severity alertData,
       row_title = title alertData,
       location_latitude = map_option fst (location alertData),
       location_longitude = map_option snd (location alertData),
       acknowledged = False,
       resolved = False,
       created_at = db_now \<rparr>"

definition createAlert ::
  "alert_data \<Rightarrow> int \<Rightarrow> bool \<Rightarrow> store_reply \<Rightarrow> int \<Rightarrow> alert_row list \<Rightarrow> alert_row list" where
  "createAlert alertData now answers reply db_now alerts =
     (let thirtyMinutesAgo = now - 30 * 60 * 1000;
          existingAlert =
            (if answers then Some (take 1 (filter (is_duplicate_of alertData thirtyMinutesAgo) alerts))
             else None)
      in
        if (case existingAlert of Some rows \<Rightarrow> length rows > 0 | None \<Rightarrow> False) then alerts
        else
          (case reply of
             Rejected \<Rightarrow> alerts
           | Accepted \<Rightarrow> alerts @ [new_alert_row alertData db_now]))"

text \<open>
  One evaluation of the device-offline rule for a vehicle's latest sample, followed by
  the submission of what it produced, with a store that answers and accepts and whose
  clock agrees with the caller's.
\<close>

definition offline_tick :: "alert_rule \<Rightarrow> vehicle_data \<Rightarrow> int \<Rightarrow> alert_row list \<Rightarrow> alert_row list" where
  "offline_tick rule data now alerts =
     fold (\<lambda>c tbl. createAlert c now True Accepted now tbl) (checkDeviceOffline rule data now) alerts"

section \<open>Geofences\<close>

text \<open>
  A row of \<open>geofences\<close>. \<open>polygon_coordinates\<close> is the first ring of the stored polygon, a
  list of \<open>[lng, lat]\<close> pairs, or \<open>None\<close> when the column is null.
\<close>

record geofence =
  gf_organization_id :: string
  gf_name :: string
  fence_type :: string
  center_latitude :: real
  center_longitude :: real
  radius :: real
  polygon_coordinates :: "(real \<times> real) list option"
  alert_on_entry :: bool
  alert_on_exit :: bool
  active :: bool

text \<open>\<open>Math.atan2(y, x)\<close> on finite numbers.\<close>

definition atan2 :: "real \<Rightarrow> real \<Rightarrow> real" where
  "atan2 y x =
     (if x > 0 then arctan (y / x)
      else if x < 0 \<and> y \<ge> 0 then arctan (y / x) + pi
      else if x < 0 then arctan (y / x) - pi
      else if y > 0 then pi / 2
      else if y < 0 then - pi / 2
      else 0)"

text \<open>The haversine term shared by both services' \<open>calculateDistance\<close>.\<close>

definition haversine_c :: "real \<Rightarrow> real \<Rightarrow> real \<Rightarrow> real \<Rightarrow> real" where
  "haversine_c lat1 lng1 lat2 lng2 =
     (let dLat = (lat2 - lat1) * pi / 180;
          dLng = (lng2 - lng1) * pi / 180;
          a = sin (dLat / 2) * sin (dLat / 2) +
              cos (lat1 * pi / 180) * cos (lat2 * pi / 180) * sin (dLng / 2) * sin (dLng / 2)
      in 2 * atan2 (sqrt a) (sqrt (1 - a)))"

text \<open>\<open>RealTimeAlertService.calculateDistance\<close>: metres, with the radius in metres.\<close>

definition calculateDistance :: "real \<Rightarrow> real \<Rightarrow> real \<Rightarrow> real \<Rightarrow> real" where
  "calculateDistance lat1 lng1 lat2 lng2 = 6371000 * haversine_c lat1 lng1 lat2 lng2"

text \<open>\<open>RealTimeService.calculateDistance\<close>: the radius in kilometres, the result in metres.\<close>

definition rt_calculateDistance :: "real \<Rightarrow> real \<Rightarrow> real \<Rightarrow> real \<Rightarrow> real" where
  "rt_calculateDistance lat1 lng1 lat2 lng2 = 6371 * haversine_c lat1 lng1 lat2 lng2 * 1000"

text \<open>
  The ray-casting loop \<open>for (i = 0, j = n - 1; i < n; j = i++)\<close>: \<open>pj\<close> is vertex \<open>j\<close>, the
  list holds the vertices from \<open>i\<close> on. A point is \<open>(latitude, longitude)\<close>, a vertex
  \<open>(lng, lat)\<close>.
\<close>

definition crosses :: "real \<times> real \<Rightarrow> real \<times> real \<Rightarrow> real \<times> real \<Rightarrow> bool" where
  "crosses ci cj point =
     (((snd ci > fst point) \<noteq> (snd cj > fst point)) \<and>
      snd point < (fst cj - fst ci) * (fst point - snd ci) / (snd cj - snd ci) + fst ci)"

fun ray_cast :: "real \<times> real \<Rightarrow> (real \<times> real) list \<Rightarrow> real \<times> real \<Rightarrow> bool \<Rightarrow> bool" where
  "ray_cast pj [] point inside = inside"
| "ray_cast pj (ci # rest) point inside =
     ray_cast ci rest point (if crosses ci pj point then \<not> inside else inside)"

definition isPointInPolygon :: "real \<times> real \<Rightarrow> (real \<times> real) list \<Rightarrow> bool" where
  "isPointInPolygon point coordinates =
     (case coordinates of [] \<Rightarrow> False | _ \<Rightarrow> ray_cast (last coordinates) coordinates point False)"

text \<open>
  \<open>isPointInGeofence\<close>, for a given distance function. \<open>None\<close> is the TypeError thrown when
  a polygon fence has no coordinates.
\<close>

definition point_in_geofence ::
  "(real \<Rightarrow> real \<Rightarrow> real \<Rightarrow> real \<Rightarrow> real) \<Rightarrow> real \<times> real \<Rightarrow> geofence \<Rightarrow> bool option" where
  "point_in_geofence distance point g =
     (if fence_type g = ''circular'' then
        Some (distance (fst point) (snd point) (center_latitude g) (center_longitude g) \<le> radius g)
      else if fence_type g = ''polygon'' then
        (case polygon_coordinates g of
           None \<Rightarrow> None
         | Some ring \<Rightarrow> Some (isPointInPolygon point ring))
      else Some False)"

definition isPointInGeofence :: "real \<times> real \<Rightarrow> geofence \<Rightarrow> bool option" where
  "isPointInGeofence = point_in_geofence calculateDistance"

definition rt_isPointInGeofence :: "real \<times> real \<Rightarrow> geofence \<Rightarrow> bool option" where
  "rt_isPointInGeofence = point_in_geofence rt_calculateDistance"

datatype transition = Entry | Exit

text \<open>
  The loop over the geofences, which \<open>checkGeofenceViolation\<close> and
  \<open>RealTimeService.checkGeofences\<close> share word for word: \<open>prevLocation\<close> is the reply to the
  query for the two newest stored samples of the vehicle, and \<open>wasInside\<close> is computed
  from its second row. An exception of the membership test leaves the loop (the enclosing
  \<open>catch\<close> logs it), keeping what was emitted before.
\<close>

fun geofence_loop ::
  "(real \<times> real \<Rightarrow> geofence \<Rightarrow> bool option) \<Rightarrow> real \<times> real \<Rightarrow> location_row list option \<Rightarrow>
   geofence list \<Rightarrow> (transition \<times> geofence) list" where
  "geofence_loop inside point prevLocation [] = []"
| "geofence_loop inside point prevLocation (g # gs) =
     (case inside point g of
        None \<Rightarrow> []
      | Some isInside \<Rightarrow>
          (case prevLocation of
             None \<Rightarrow> geofence_loop inside point prevLocation gs
           | Some rows \<Rightarrow>
               if length rows > 1 then
                 (case inside (loc_latitude (rows ! 1), loc_longitude (rows ! 1)) g of
                    None \<Rightarrow> []
                  | Some wasInside \<Rightarrow>
                      (if isInside \<and> \<not> wasInside \<and> alert_on_entry g then [(Entry, g)]
                       else if \<not> isInside \<and> wasInside \<and> alert_on_exit g then [(Exit, g)]
                       else [])
                      @ geofence_loop inside point prevLocation gs)
               else geofence_loop inside point prevLocation gs))"

text \<open>\<open>.eq('organization_id', org).eq('active', true)\<close> on \<open>geofences\<close>.\<close>

definition active_geofences :: "string \<Rightarrow> geofence list \<Rightarrow> geofence list" where
  "active_geofences org tbl = filter (\<lambda>g. gf_organization_id g = org \<and> active g) tbl"

definition geofence_alert :: "alert_rule \<Rightarrow> vehicle_data \<Rightarrow> transition \<times> geofence \<Rightarrow> alert_data" where
  "geofence_alert rule data tg =
     \<lparr> alert_organizationId = rule_organizationId rule,
       alert_vehicleId = vehicleId data,
       alertType = (case fst tg of Entry \<Rightarrow> ''geofence_entry'' | Exit \<Rightarrow> ''geofence_exit''),
       severity = ''medium'',
       title = (case fst tg of Entry \<Rightarrow> ''Geofence Entry - '' | Exit \<Rightarrow> ''Geofence Exit - '')
               @ gf_name (snd tg),
       location = Some (latitude data, longitude data),
       alert_timestamp = timestamp data,
       alert_metadata = MetaGeofence (gf_name (snd tg)) \<rparr>"

text \<open>
  \<open>checkGeofenceViolation\<close>: \<open>geofences\<close> is the store's reply with the \<open>geofences\<close> table
  (\<open>None\<close>: no reply, the rule returns).
\<close>

definition checkGeofenceViolation ::
  "alert_rule \<Rightarrow> vehicle_data \<Rightarrow> geofence list option \<Rightarrow> location_row list option \<Rightarrow>
   alert_data list" where
  "checkGeofenceViolation rule data geofences prevLocation =
     (case geofences of
        None \<Rightarrow> []
      | Some tbl \<Rightarrow>
          map (geofence_alert rule data)
            (geofence_loop isPointInGeofence (latitude data, longitude data) prevLocation
               (active_geofences (rule_organizationId rule) tbl)))"

section \<open>AlertService and RealTimeService\<close>

datatype js_error = FetchError | TypeError

text \<open>The columns \<open>createSpeedingAlert\<close> selects from the vehicle's row.\<close>

record vehicle_info =
  veh_organization_id :: string
  plate_number :: string

text \<open>
  \<open>AlertService.createSpeedingAlert\<close>: \<open>vehicle\<close> is the reply to the lookup of the vehicle
  (\<open>None\<close>: no row, the method returns). The row is inserted as it is; the reply to the
  insert is not inspected, and \<open>acknowledged\<close>, \<open>resolved\<close> and \<open>created_at\<close> are the store's
  defaults.
\<close>

definition createSpeedingAlert ::
  "vehicle_info option \<Rightarrow> string \<Rightarrow> real \<Rightarrow> real \<Rightarrow> real \<times> real \<Rightarrow> store_reply \<Rightarrow> int \<Rightarrow>
   alert_row list \<Rightarrow> alert_row list" where
  "createSpeedingAlert vehicle vid currentSpeed speedLimit loc reply db_now alerts =
     (case vehicle of
        None \<Rightarrow> alerts
      | Some v \<Rightarrow>
          (case reply of
             Rejected \<Rightarrow> alerts
           | Accepted \<Rightarrow>
               alerts @
               [\<lparr> organization_id = veh_organization_id v,
                  vehicle_id = vid,
                  alert_type = ''speeding'',
                  row_severity = (if currentSpeed > speedLimit + 20 then ''high'' else ''medium''),
                  row_title = ''Speeding Alert - '' @ plate_number v,
                  location_latitude = Some (fst loc),
                  location_longitude = Some (snd loc),
                  acknowledged = False,
                  resolved = False,
                  created_at = db_now \<rparr>]))"

text \<open>\<open>LocationUpdate\<close>, the sample type of \<open>RealTimeService\<close>.\<close>

record location_update =
  lu_deviceId :: string
  lu_latitude :: real
  lu_longitude :: real
  lu_speed :: real
  lu_heading :: real
  lu_timestamp :: int

text \<open>
  \<open>RealTimeService.getSpeedLimit\<close>: the class keeps no state for it, the request is made
  at every call, and its outcome (\<open>fetched\<close>) is all that can differ between two calls. The
  result is the limit together with the coordinates the external service was asked
  about.
\<close>

definition rt_getSpeedLimit :: "real \<Rightarrow> real \<Rightarrow> bool \<Rightarrow> js_error + (real \<times> (real \<times> real) list)" where
  "rt_getSpeedLimit lat lng fetched =
     (case (if fetched then Inr 35 else Inl FetchError) of
        Inr v \<Rightarrow> Inr (v, [(lat, lng)])
      | Inl e \<Rightarrow> Inr (35, [(lat, lng)]))"

text \<open>\<open>RealTimeService.checkSpeeding\<close>, given the resolved speed limit.\<close>

definition rt_checkSpeeding ::
  "vehicle_info option \<Rightarrow> string \<Rightarrow> location_update \<Rightarrow> real \<Rightarrow> store_reply \<Rightarrow> int \<Rightarrow>
   alert_row list \<Rightarrow> alert_row list" where
  "rt_checkSpeeding vehicle vid loc speedLimit reply db_now alerts =
     (if lu_speed loc > speedLimit + 5 then
        createSpeedingAlert vehicle vid (lu_speed loc) speedLimit
          (lu_latitude loc, lu_longitude loc) reply db_now alerts
      else alerts)"

text \<open>
  \<open>RealTimeService.checkGeofences\<close>, as the list of its calls of \<open>createGeofenceAlert\<close>
  (vehicle, geofence name, kind, location).
\<close>

definition checkGeofences ::
  "string \<Rightarrow> location_update \<Rightarrow> string \<Rightarrow> geofence list option \<Rightarrow> location_row list option \<Rightarrow>
   (string \<times> string \<times> transition \<times> (real \<times> real)) list" where
  "checkGeofences vid loc organizationId geofences prevLocation =
     (case geofences of
        None \<Rightarrow> []
      | Some tbl \<Rightarrow>
          map (\<lambda>tg. (vid, gf_name (snd tg), fst tg, (lu_latitude loc, lu_longitude loc)))
            (geofence_loop rt_isPointInGeofence (lu_latitude loc, lu_longitude loc) prevLocation
               (active_geofences organizationId tbl)))"

text \<open>
  One sample of \<open>RealTimeService.startTracking\<close>'s update, as far as the geofences go:
  \<open>storeLocationUpdates\<close> inserts the sample's row into \<open>location_updates\<close> (a rejected insert
  throws and ends the update before any check), then \<open>processLocationForAlerts\<close> runs
  \<open>checkGeofences\<close>, whose query sees the table with the new row.
\<close>

definition stored_row :: "string \<Rightarrow> location_update \<Rightarrow> location_row" where
  "stored_row vid loc =
     \<lparr> loc_vehicle_id = vid, loc_latitude = lu_latitude loc, loc_longitude = lu_longitude loc,
       loc_speed = lu_speed loc, loc_timestamp = lu_timestamp loc, loc_fuel_level = None \<rparr>"

definition rt_store_and_checkGeofences ::
  "string \<Rightarrow> location_update \<Rightarrow> string \<Rightarrow> geofence list option \<Rightarrow> location_row list \<Rightarrow>
   (string \<times> string \<times> transition \<times> (real \<times> real)) list" where
  "rt_store_and_checkGeofences vid loc organizationId geofences stored =
     checkGeofences vid loc organizationId geofences
       (Some (recent_rows vid 2 (stored @ [stored_row vid loc])))"

text \<open>A row of \<open>trips\<close> (the columns \<open>updateTripData\<close> reads or writes).\<close>

record trip =
  trip_id :: nat
  trip_vehicle_id :: string
  start_location_lat :: real
  start_location_lng :: real
  end_location_lat :: "real option"
  end_location_lng :: "real option"
  start_time :: int
  distance_km :: "real option"
  max_speed :: "real option"
  trip_status :: string
  updated_at :: int

text \<open>
  The vehicle's newest trip in progress:
  \<open>.eq('trip_status', 'in_progress').order('start_time', {ascending: false}).limit(1).single()\<close>.
\<close>

definition current_trip :: "string \<Rightarrow> trip list \<Rightarrow> trip option" where
  "current_trip vid trips =
     (case rev (sort_key start_time
                 (filter (\<lambda>t. trip_vehicle_id t = vid \<and> trip_status t = ''in_progress'') trips)) of
        [] \<Rightarrow> None
      | t # _ \<Rightarrow> Some t)"

text \<open>
  \<open>RealTimeService.updateTripData\<close> at the instant \<open>now\<close>, on a store that answers;
  \<open>new_id\<close> is the id the store gives to an inserted trip. The rounding of the decimal
  columns is not modelled.
\<close>

definition updateTripData :: "string \<Rightarrow> location_update \<Rightarrow> int \<Rightarrow> nat \<Rightarrow> trip list \<Rightarrow> trip list" where
  "updateTripData vid loc now new_id trips =
     (case current_trip vid trips of
        Some currentTrip \<Rightarrow>
          (let distance = rt_calculateDistance (start_location_lat currentTrip)
                            (start_location_lng currentTrip) (lu_latitude loc) (lu_longitude loc)
           in map (\<lambda>t. if trip_id t = trip_id currentTrip then
                          t\<lparr> end_location_lat := Some (lu_latitude loc),
                             end_location_lng := Some (lu_longitude loc),
                             distance_km := Some (distance / 1000),
                             max_speed := Some (max (case max_speed currentTrip of
                                                       None \<Rightarrow> 0 | Some m \<Rightarrow> m) (lu_speed loc)),
                             updated_at := now \<rparr>
                        else t) trips)
      | None \<Rightarrow>
          if lu_speed loc > 5 then
            trips @
            [\<lparr> trip_id = new_id,
               trip_vehicle_id = vid,
               start_location_lat = lu_latitude loc,
               start_location_lng = lu_longitude loc,
               end_location_lat = None,
               end_location_lng = None,
               start_time = lu_timestamp loc,
               distance_km = None,
               max_speed = Some (lu_speed loc),
               trip_status = ''in_progress'',
               updated_at = now \<rparr>]
          else trips)"

section \<open>RealTimeAlertService: getSpeedLimit\<close>

text \<open>
  \<open>x.toFixed(4)\<close>: the sign and the digits of the magnitude rounded to four decimals
  (halves upwards), so \<open>"-0.0000"\<close> and \<open>"0.0000"\<close> differ.
\<close>

definition toFixed4 :: "real \<Rightarrow> bool \<times> nat" where
  "toFixed4 x = (x < 0, nat \<lfloor>\<bar>x\<bar> * 10000 + 1 / 2\<rfloor>)"

type_synonym cache_key = "(bool \<times> nat) \<times> (bool \<times> nat)"

definition cacheKey :: "real \<Rightarrow> real \<Rightarrow> cache_key" where
  "cacheKey lat lng = (toFixed4 lat, toFixed4 lng)"

record cache_entry =
  limit :: real
  cached_at :: int

type_synonym speed_cache = "cache_key \<rightharpoonup> cache_entry"

text \<open>The part of the Overpass reply the method reads.\<close>

record way_tags =
  maxspeed :: "string option"

record way =
  tags :: "way_tags option"

datatype fetch_reply = FetchFailed | Elements "way list option"

definition is_digit :: "char \<Rightarrow> bool" where
  "is_digit c = (48 \<le> (of_char c :: nat) \<and> (of_char c :: nat) \<le> 57)"

definition digits_value :: "string \<Rightarrow> nat" where
  "digits_value ds = foldl (\<lambda>acc c. 10 * acc + ((of_char c :: nat) - 48)) 0 ds"

text \<open>\<open>parseInt(maxspeed.replace(/[^\d]/g, '')) || 35\<close>: no digit gives NaN, and NaN and 0
  are falsy.\<close>

definition parse_maxspeed :: "string \<Rightarrow> real" where
  "parse_maxspeed s =
     (let ds = filter is_digit s in
      if ds = [] then 35
      else if digits_value ds = 0 then 35
      else real (digits_value ds))"

text \<open>The body of the \<open>try\<close>: a failed request or an unreadable reply throws.\<close>

definition getSpeedLimit_try ::
  "speed_cache \<Rightarrow> cache_key \<Rightarrow> fetch_reply \<Rightarrow> int \<Rightarrow> js_error + (real \<times> speed_cache)" where
  "getSpeedLimit_try cache key reply fetched_at =
     (case reply of
        FetchFailed \<Rightarrow> Inl FetchError
      | Elements els \<Rightarrow>
          (let speedLimit =
                 (case els of
                    Some (w # _) \<Rightarrow>
                      (case tags w of
                         Some t \<Rightarrow>
                           (case maxspeed t of
                              Some m \<Rightarrow> if m \<noteq> [] then parse_maxspeed m else 35
                            | None \<Rightarrow> 35)
                       | None \<Rightarrow> 35)
                  | _ \<Rightarrow> 35)
           in Inr (speedLimit, cache(key \<mapsto> \<lparr> limit = speedLimit, cached_at = fetched_at \<rparr>))))"

text \<open>
  \<open>getSpeedLimit\<close> entered at the instant \<open>now\<close>; \<open>fetched_at\<close> is the instant after the
  request. The result is the resolved limit, the cache the call leaves, and the
  coordinates the external service was asked about.
\<close>

definition getSpeedLimit ::
  "speed_cache \<Rightarrow> int \<Rightarrow> real \<Rightarrow> real \<Rightarrow> fetch_reply \<Rightarrow> int \<Rightarrow>
   js_error + (real \<times> speed_cache \<times> (real \<times> real) list)" where
  "getSpeedLimit cache now lat lng reply fetched_at =
     (let key = cacheKey lat lng;
          lookup = (case getSpeedLimit_try cache key reply fetched_at of
                      Inl e \<Rightarrow> Inr (35, cache, [(lat, lng)])
                    | Inr r \<Rightarrow> Inr (fst r, snd r, [(lat, lng)]))
      in
        case cache key of
          Some cached \<Rightarrow>
            if now - cached_at cached < 3600000 then Inr (limit cached, cache, []) else lookup
        | None \<Rightarrow> lookup)"

section \<open>RealGPSService: normalizeRealTimeData\<close>

text \<open>
  A parsed WebSocket message: \<open>None\<close> is the JSON value null, otherwise an object with
  the listed properties, each present or absent. The timestamp is a number or a string.
\<close>

datatype raw_timestamp = TsNumber real | TsString string

record raw_payload =
  p_device_id :: "string option"
  p_deviceId :: "string option"
  p_vehicle_id :: "string option"
  p_vehicleId :: "string option"
  p_latitude :: "real option"
  p_lat :: "real option"
  p_longitude :: "real option"
  p_lng :: "real option"
  p_speed :: "real option"
  p_heading :: "real option"
  p_bearing :: "real option"
  p_timestamp :: "raw_timestamp option"
  p_engine_status :: "string option"
  p_fuel_level :: "real option"
  p_odometer :: "real option"









section \<open>Sample values\<close>

text \<open>Concrete inputs for the examples: a rule with no settings, and samples of one vehicle.\<close>

definition no_conditions :: conditions where
  "no_conditions =
     \<lparr> tolerance = None, harshAcceleration = None, harshBraking = None, offlineThreshold = None \<rparr>"

definition sample_rule :: "string \<Rightarrow> conditions \<Rightarrow> alert_rule" where
  "sample_rule ty conds =
     \<lparr> rule_organizationId = ''org-1'', rule_name = ''rule-1'', rule_type = ty,
       rule_conditions = conds, rule_enabled = True \<rparr>"

definition sample_data :: "real \<Rightarrow> int \<Rightarrow> vehicle_data" where
  "sample_data s t =
     \<lparr> deviceId = ''dev-1'', vehicleId = ''veh-1'', latitude = 1 / 2, longitude = 1 / 2,
       speed = s, heading = 0, timestamp = t, engineStatus = ''on'',
       fuelLevel = None, odometer = None \<rparr>"

definition sample_row :: "real \<Rightarrow> real \<Rightarrow> real \<Rightarrow> int \<Rightarrow> location_row" where
  "sample_row lat lng s t =
     \<lparr> loc_vehicle_id = ''veh-1'', loc_latitude = lat, loc_longitude = lng, loc_speed = s,
       loc_timestamp = t, loc_fuel_level = None \<rparr>"

definition sample_update :: "real \<Rightarrow> real \<Rightarrow> real \<Rightarrow> int \<Rightarrow> location_update" where
  "sample_update lat lng s t =
     \<lparr> lu_deviceId = ''dev-1'', lu_latitude = lat, lu_longitude = lng, lu_speed = s,
       lu_heading = 0, lu_timestamp = t \<rparr>"

definition sample_vehicle :: vehicle_info where
  "sample_vehicle = \<lparr> veh_organization_id = ''org-1'', plate_number = ''ABC-123'' \<rparr>"

text \<open>The unit square as a polygon fence that reports entries and exits.\<close>

definition unit_square :: geofence where
  "unit_square =
     \<lparr> gf_organization_id = ''org-1'', gf_name = ''Depot'', fence_type = ''polygon'',
       center_latitude = 0, center_longitude = 0, radius = 0,
       polygon_coordinates = Some [(0, 0), (1, 0), (1, 1), (0, 1)],
       alert_on_entry = True, alert_on_exit = True, active = True \<rparr>"

definition empty_payload :: raw_payload where
  "empty_payload =
     \<lparr> p_device_id = None, p_deviceId = None, p_vehicle_id = None, p_vehicleId = None,
       p_latitude = None, p_lat = None, p_longitude = None, p_lng = None, p_speed = None,
       p_heading = None, p_bearing = None, p_timestamp = None, p_engine_status = None,
       p_fuel_level = None, p_odometer = None \<rparr>"

text \<open>The trip that a first sample at the origin, at 10 mph and instant 0, opens.\<close>

definition sample_trip :: trip where
  "sample_trip =
     \<lparr> trip_id = 1, trip_vehicle_id = ''veh-1'', start_location_lat = 0, start_location_lng = 0,
       end_location_lat = None, end_location_lng = None, start_time = 0, distance_km = None,
       max_speed = Some 10, trip_status = ''in_progress'', updated_at = 0 \<rparr>"

section \<open>Auxiliary facts\<close>

lemmas sample_defs = sample_rule_def sample_data_def sample_row_def sample_update_def
  sample_vehicle_def no_conditions_def unit_square_def empty_payload_def sample_trip_def

lemma sorted_key_le_last:
  "sorted (map f xs) \<Longrightarrow> x \<in> set xs \<Longrightarrow> f x \<le> f (last xs)"
proof (induction xs)
  case Nil
  then show ?case by simp
next
  case (Cons a xs)
  then show ?case by (cases "xs = []") auto
qed

lemma recent_rows_hd:
  assumes "recent_rows v n tbl \<noteq> []"
  shows "hd (recent_rows v n tbl) \<in> set tbl \<and> loc_vehicle_id (hd (recent_rows v n tbl)) = v \<and>
         (\<forall>r \<in> set tbl. loc_vehicle_id r = v \<longrightarrow>
            loc_timestamp r \<le> loc_timestamp (hd (recent_rows v n tbl)))"
proof -
  let ?xs = "sort_key loc_timestamp (filter (\<lambda>r. loc_vehicle_id r = v) tbl)"
  have rr: "recent_rows v n tbl = take n (rev ?xs)" by (simp add: recent_rows_def)
  with assms have ne: "?xs \<noteq> []" and n: "n \<noteq> 0" by auto
  have "hd (take n (rev ?xs)) = hd (rev ?xs)" using n by (cases "rev ?xs") (auto simp: take_Cons')
  then have h: "hd (recent_rows v n tbl) = last ?xs" using ne rr by (simp add: hd_rev)
  have mem: "last ?xs \<in> set ?xs" using ne by (rule last_in_set)
  have srt: "sorted (map loc_timestamp ?xs)" by (rule sorted_sort_key)
  have "\<forall>r \<in> set tbl. loc_vehicle_id r = v \<longrightarrow> loc_timestamp r \<le> loc_timestamp (last ?xs)"
  proof (intro ballI impI)
    fix r assume "r \<in> set tbl" and "loc_vehicle_id r = v"
    then have "r \<in> set ?xs" by simp
    then show "loc_timestamp r \<le> loc_timestamp (last ?xs)"
      using sorted_key_le_last[OF srt] by simp
  qed
  with h mem show ?thesis by simp
qed

lemma createAlert_answered:
  "createAlert c now True reply db_now alerts =
     (if \<exists>r \<in> set alerts. is_duplicate_of c (now - 30 * 60 * 1000) r then alerts
      else case reply of Rejected \<Rightarrow> alerts | Accepted \<Rightarrow> alerts @ [new_alert_row c db_now])"
proof -
  have "(0 < length (take 1 (filter (is_duplicate_of c (now - 30 * 60 * 1000)) alerts))) =
        (\<exists>r \<in> set alerts. is_duplicate_of c (now - 30 * 60 * 1000) r)"
    by (auto simp: filter_empty_conv)
  then show ?thesis by (simp add: createAlert_def Let_def del: length_greater_0_conv)
qed

lemma new_alert_row_duplicate:
  "is_duplicate_of c t (new_alert_row c db_now) = (t \<le> db_now)"
  by (simp add: is_duplicate_of_def new_alert_row_def)

section \<open>Deduplication (C1)\<close>

text \<open>
  Against C1 as stated: \<open>AlertService.createSpeedingAlert\<close> inserts without looking for an
  earlier alert, so two speeding alerts of one vehicle raised a minute apart are both
  persisted; and \<open>createAlert\<close> persists nothing when the store rejects the insert, although
  no earlier alert exists.
\<close>

theorem dedup_counterexample:
  "map (\<lambda>r. (organization_id r, vehicle_id r, alert_type r, created_at r))
     (createSpeedingAlert (Some sample_vehicle) ''veh-1'' 60 35 (0, 0) Accepted 60000
        (createSpeedingAlert (Some sample_vehicle) ''veh-1'' 60 35 (0, 0) Accepted 0 []))
   = [(''org-1'', ''veh-1'', ''speeding'', 0), (''org-1'', ''veh-1'', ''speeding'', 60000)] \<and>
   createAlert (hd (checkSpeedingViolation (sample_rule ''speeding'' no_conditions) (sample_data 60 0) 35))
     0 True Rejected 0 [] = []"
  by (simp add: createSpeedingAlert_def sample_defs createAlert_def)

text \<open>
  C1, amended. For every candidate handed to \<open>RealTimeAlertService.createAlert\<close> on a store
  that answers the duplicate query: if the \<open>alerts\<close> table holds a row with the candidate's
  organization id, vehicle id and alert type whose \<open>created_at\<close> is not older than 30
  minutes, the table stays as it is; otherwise, if the store accepts the insert, exactly
  one row, built from the candidate, is appended. Submitting the same candidate a second
  time leaves one row while the first is at most 30 minutes old and gives two rows after
  that. \<open>AlertService.createSpeedingAlert\<close> adds a row whatever the table holds.
\<close>

theorem createAlert_dedup:
  "(answers \<and> (\<exists>r \<in> set alerts. organization_id r = alert_organizationId c \<and>
        vehicle_id r = alert_vehicleId c \<and> alert_type r = alertType c \<and>
        now - 30 * 60 * 1000 \<le> created_at r)
     \<longrightarrow> createAlert c now answers reply db_now alerts = alerts) \<and>
   (answers \<and> \<not> (\<exists>r \<in> set alerts. organization_id r = alert_organizationId c \<and>
        vehicle_id r = alert_vehicleId c \<and> alert_type r = alertType c \<and>
        now - 30 * 60 * 1000 \<le> created_at r) \<and> reply = Accepted
     \<longrightarrow> createAlert c now answers reply db_now alerts = alerts @ [new_alert_row c db_now]) \<and>
   (\<not> (\<exists>r \<in> set alerts. organization_id r = alert_organizationId c \<and>
        vehicle_id r = alert_vehicleId c \<and> alert_type r = alertType c \<and>
        now - 30 * 60 * 1000 \<le> created_at r) \<and> now \<le> later
     \<longrightarrow> createAlert c later True Accepted later (createAlert c now True Accepted now alerts) =
         (if later - 30 * 60 * 1000 \<le> now then alerts @ [new_alert_row c now]
          else alerts @ [new_alert_row c now, new_alert_row c later])) \<and>
   length (createSpeedingAlert (Some v) vid currentSpeed speedLimit loc Accepted db_now alerts)
     = Suc (length alerts)"
proof (intro conjI impI)
  assume "answers \<and> (\<exists>r \<in> set alerts. organization_id r = alert_organizationId c \<and>
        vehicle_id r = alert_vehicleId c \<and> alert_type r = alertType c \<and>
        now - 30 * 60 * 1000 \<le> created_at r)"
  then show "createAlert c now answers reply db_now alerts = alerts"
    by (auto simp: createAlert_answered is_duplicate_of_def)
next
  assume "answers \<and> \<not> (\<exists>r \<in> set alerts. organization_id r = alert_organizationId c \<and>
        vehicle_id r = alert_vehicleId c \<and> alert_type r = alertType c \<and>
        now - 30 * 60 * 1000 \<le> created_at r) \<and> reply = Accepted"
  then show "createAlert c now answers reply db_now alerts = alerts @ [new_alert_row c db_now]"
    by (auto simp: createAlert_answered is_duplicate_of_def)
next
  assume a: "\<not> (\<exists>r \<in> set alerts. organization_id r = alert_organizationId c \<and>
        vehicle_id r = alert_vehicleId c \<and> alert_type r = alertType c \<and>
        now - 30 * 60 * 1000 \<le> created_at r) \<and> now \<le> later"
  then have nodup: "\<not> (\<exists>r \<in> set alerts. is_duplicate_of c (now - 30 * 60 * 1000) r)"
    by (auto simp: is_duplicate_of_def)
  then have first: "createAlert c now True Accepted now alerts = alerts @ [new_alert_row c now]"
    by (simp add: createAlert_answered)
  have later: "\<not> (\<exists>r \<in> set alerts. is_duplicate_of c (later - 30 * 60 * 1000) r)"
    using a nodup by (fastforce simp: is_duplicate_of_def)
  show "createAlert c later True Accepted later (createAlert c now True Accepted now alerts) =
         (if later - 30 * 60 * 1000 \<le> now then alerts @ [new_alert_row c now]
          else alerts @ [new_alert_row c now, new_alert_row c later])"
    using later nodup by (simp add: createAlert_answered new_alert_row_duplicate)
next
  show "length (createSpeedingAlert (Some v) vid currentSpeed speedLimit loc Accepted db_now alerts)
     = Suc (length alerts)"
    by (simp add: createSpeedingAlert_def)
qed

text \<open>The speeding candidate of a vehicle at 60 mph, submitted at 0, then again 30 minutes
  later (suppressed) or one millisecond after that (persisted).\<close>

theorem createAlert_dedup_witness:
  "(let c = hd (checkSpeedingViolation (sample_rule ''speeding'' no_conditions) (sample_data 60 0) 35);
        once = createAlert c 0 True Accepted 0 []
    in once = [new_alert_row c 0] \<and>
       createAlert c 1800000 True Accepted 1800000 once = once \<and>
       createAlert c 1800001 True Accepted 1800001 once = [new_alert_row c 0, new_alert_row c 1800001])"
proof -
  let ?c = "hd (checkSpeedingViolation (sample_rule ''speeding'' no_conditions) (sample_data 60 0) 35)"
  have h1: "createAlert ?c 0 True Accepted 0 [] = [new_alert_row ?c 0]"
    using conjunct1[OF conjunct2[OF createAlert_dedup[of True "[]" ?c 0 Accepted 0 0]]] by simp
  have dup: "\<exists>r \<in> set [new_alert_row ?c 0]. organization_id r = alert_organizationId ?c \<and>
        vehicle_id r = alert_vehicleId ?c \<and> alert_type r = alertType ?c \<and>
        1800000 - 30 * 60 * 1000 \<le> created_at r"
    by (simp add: new_alert_row_def)
  have h2: "createAlert ?c 1800000 True Accepted 1800000 [new_alert_row ?c 0] = [new_alert_row ?c 0]"
    using conjunct1[OF createAlert_dedup[of True "[new_alert_row ?c 0]" ?c 1800000 Accepted 1800000 0]] dup
    by blast
  have h3: "createAlert ?c 1800001 True Accepted 1800001 (createAlert ?c 0 True Accepted 0 [])
            = [new_alert_row ?c 0, new_alert_row ?c 1800001]"
    using conjunct2[OF conjunct2[OF createAlert_dedup[of True "[]" ?c 0 Accepted 0 1800001]]] by simp
  show ?thesis unfolding Let_def h1 using h2 h3[unfolded h1] by (intro conjI refl)
qed

section \<open>Speeding (C2)\<close>

text \<open>
  Against C2 as stated: with limit 35 and tolerance 5 a sample at 41 mph does yield a
  candidate (of severity low), and an excess of exactly 20 mph over the limit gives
  severity medium, not high.
\<close>

theorem speeding_counterexample:
  "map severity (checkSpeedingViolation (sample_rule ''speeding'' (no_conditions\<lparr>tolerance := Some 5\<rparr>))
      (sample_data 41 0) 35) = [''low''] \<and>
   map severity (checkSpeedingViolation (sample_rule ''speeding'' (no_conditions\<lparr>tolerance := Some 5\<rparr>))
      (sample_data 55 0) 35) = [''medium'']"
  by (simp add: checkSpeedingViolation_def sample_defs or_default_def)

text \<open>
  C2, amended. The speeding rule emits a candidate if and only if
  \<open>speed > limit + tolerance\<close> (tolerance 5 unless the rule sets another), and then exactly
  one; its severity is high when \<open>speed > limit + 20\<close>, medium when \<open>speed > limit + 10\<close>, and
  low otherwise. On the \<open>RealTimeService\<close> path the tolerance is 5 and the alert is high
  when \<open>speed > limit + 20\<close> and medium otherwise.
\<close>

theorem speeding_rule:
  "map severity (checkSpeedingViolation rule data speedLimit) =
     (if speed data > speedLimit + or_default (tolerance (rule_conditions rule)) 5
      then [if speed data > speedLimit + 20 then ''high''
            else if speed data > speedLimit + 10 then ''medium'' else ''low'']
      else []) \<and>
   map row_severity (rt_checkSpeeding (Some v) vid loc speedLimit Accepted db_now []) =
     (if lu_speed loc > speedLimit + 5
      then [if lu_speed loc > speedLimit + 20 then ''high'' else ''medium'']
      else [])"
  by (simp add: checkSpeedingViolation_def Let_def rt_checkSpeeding_def createSpeedingAlert_def)

text \<open>With limit 35 and the default tolerance: 40 mph gives nothing, 41 and 41.01 mph a
  low candidate, 56 mph a high one.\<close>

theorem speeding_rule_witness:
  "checkSpeedingViolation (sample_rule ''speeding'' no_conditions) (sample_data 40 0) 35 = [] \<and>
   map severity (checkSpeedingViolation (sample_rule ''speeding'' no_conditions) (sample_data 41 0) 35) = [''low''] \<and>
   map severity (checkSpeedingViolation (sample_rule ''speeding'' no_conditions) (sample_data (4101 / 100) 0) 35) = [''low''] \<and>
   map severity (checkSpeedingViolation (sample_rule ''speeding'' no_conditions) (sample_data 56 0) 35) = [''high''] \<and>
   map row_severity (rt_checkSpeeding (Some sample_vehicle) ''veh-1'' (sample_update 0 0 41 0) 35 Accepted 0 []) = [''medium'']"
  using speeding_rule[of "sample_rule ''speeding'' no_conditions" "sample_data 40 0" 35 sample_vehicle "''veh-1''" "sample_update 0 0 41 0" 0]
    speeding_rule[of "sample_rule ''speeding'' no_conditions" "sample_data 41 0" 35 sample_vehicle "''veh-1''" "sample_update 0 0 41 0" 0]
    speeding_rule[of "sample_rule ''speeding'' no_conditions" "sample_data (4101 / 100) 0" 35 sample_vehicle "''veh-1''" "sample_update 0 0 41 0" 0]
    speeding_rule[of "sample_rule ''speeding'' no_conditions" "sample_data 56 0" 35 sample_vehicle "''veh-1''" "sample_update 0 0 41 0" 0]
  by (simp add: sample_defs or_default_def)

section \<open>Harsh driving (C4, C10)\<close>

lemma js_div_finite: "b \<noteq> 0 \<Longrightarrow> js_div a b = Num (a / b)"
  by (simp add: js_div_def)

lemma checkHarshDriving_two_rows:
  "2 \<le> length rows \<Longrightarrow>
   map (\<lambda>c. (alertType c, severity c, alert_metadata c)) (checkHarshDriving rule data (Some rows)) =
     (let acceleration =
            js_div (speed data - loc_speed (hd rows))
              (real_of_int (timestamp data - loc_timestamp (hd rows)) / 1000)
      in if js_gt acceleration (or_default (harshAcceleration (rule_conditions rule)) 8)
         then [(''harsh_acceleration'', ''medium'', MetaAcceleration acceleration)]
         else if js_lt acceleration (or_default (harshBraking (rule_conditions rule)) (- 8))
         then [(''harsh_braking'', ''medium'', MetaDeceleration (js_abs acceleration))]
         else [])"
  by (simp add: checkHarshDriving_def Let_def)

text \<open>
  Against C4 as stated: a vehicle with the two samples of the claim's example, 40 mph
  and then 10 mph two seconds later, gets no candidate. If the current sample is not in
  \<open>location_updates\<close> when the rule runs, the query returns one row and the rule returns at
  its length check; if it is, the rule takes the current sample itself as \<open>previous\<close> and
  compares NaN with the thresholds.
\<close>

theorem harsh_driving_two_samples_counterexample:
  "checkHarshDriving (sample_rule ''harsh_driving'' no_conditions) (sample_data 10 12000)
     (Some (recent_rows ''veh-1'' 3 [sample_row 0 0 40 10000])) = [] \<and>
   checkHarshDriving (sample_rule ''harsh_driving'' no_conditions) (sample_data 10 12000)
     (Some (recent_rows ''veh-1'' 3 [sample_row 0 0 40 10000, sample_row 0 0 10 12000])) = []"
  by (simp add: checkHarshDriving_def recent_rows_def sample_defs or_default_def js_div_def)

text \<open>
  C4, amended. The harsh-driving rule emits nothing when the query for the vehicle's
  stored samples returns fewer than two rows, the current event not counted. With at
  least two rows and a first row whose timestamp differs from the event's, the
  acceleration is the difference of the speeds of the event and of that row divided by
  the difference of their times in seconds; the rule emits a \<open>harsh_acceleration\<close>
  candidate when the acceleration exceeds the acceleration threshold (8 unless the rule
  sets another), otherwise a \<open>harsh_braking\<close> candidate when it is below the braking
  threshold (-8 unless set), and otherwise nothing. The first row of the query on
  \<open>location_updates\<close> is a sample of the vehicle, and no stored sample of the vehicle is
  newer.
\<close>

theorem harsh_driving_rule:
  "checkHarshDriving rule data None = [] \<and>
   (length rows < 2 \<longrightarrow> checkHarshDriving rule data (Some rows) = []) \<and>
   (2 \<le> length rows \<and> timestamp data \<noteq> loc_timestamp (hd rows) \<longrightarrow>
      map (\<lambda>c. (alertType c, severity c, alert_metadata c)) (checkHarshDriving rule data (Some rows)) =
        (let acceleration =
               (speed data - loc_speed (hd rows)) /
               (real_of_int (timestamp data - loc_timestamp (hd rows)) / 1000);
             harshAccelThreshold =
               (case harshAcceleration (rule_conditions rule) of
                  None \<Rightarrow> 8 | Some x \<Rightarrow> if x = 0 then 8 else x);
             harshBrakeThreshold =
               (case harshBraking (rule_conditions rule) of
                  None \<Rightarrow> - 8 | Some x \<Rightarrow> if x = 0 then - 8 else x)
         in if harshAccelThreshold < acceleration
            then [(''harsh_acceleration'', ''medium'', MetaAcceleration (Num acceleration))]
            else if acceleration < harshBrakeThreshold
            then [(''harsh_braking'', ''medium'', MetaDeceleration (Num \<bar>acceleration\<bar>))]
            else [])) \<and>
   (rows = recent_rows (vehicleId data) 3 stored \<longrightarrow> 2 \<le> length rows \<longrightarrow>
      hd rows \<in> set stored \<and> loc_vehicle_id (hd rows) = vehicleId data \<and>
      (\<forall>r \<in> set stored. loc_vehicle_id r = vehicleId data \<longrightarrow>
         loc_timestamp r \<le> loc_timestamp (hd rows)))"
proof (intro conjI[of "checkHarshDriving rule data None = []"]
    conjI[of "length rows < 2 \<longrightarrow> _"] conjI[of "2 \<le> length rows \<and> _ \<longrightarrow> _"] impI)
  show "checkHarshDriving rule data None = []" by (simp add: checkHarshDriving_def)
next
  assume "length rows < 2"
  then show "checkHarshDriving rule data (Some rows) = []" by (simp add: checkHarshDriving_def)
next
  assume a: "2 \<le> length rows \<and> timestamp data \<noteq> loc_timestamp (hd rows)"
  then have nz: "real_of_int (timestamp data - loc_timestamp (hd rows)) / 1000 \<noteq> 0" by simp
  have q: "js_div (speed data - loc_speed (hd rows))
             (real_of_int (timestamp data - loc_timestamp (hd rows)) / 1000)
           = Num ((speed data - loc_speed (hd rows)) /
                  (real_of_int (timestamp data - loc_timestamp (hd rows)) / 1000))"
    using nz by (rule js_div_finite)
  from a have l2: "2 \<le> length rows" by simp
  show "map (\<lambda>c. (alertType c, severity c, alert_metadata c)) (checkHarshDriving rule data (Some rows)) =
        (let acceleration =
               (speed data - loc_speed (hd rows)) /
               (real_of_int (timestamp data - loc_timestamp (hd rows)) / 1000);
             harshAccelThreshold =
               (case harshAcceleration (rule_conditions rule) of
                  None \<Rightarrow> 8 | Some x \<Rightarrow> if x = 0 then 8 else x);
             harshBrakeThreshold =
               (case harshBraking (rule_conditions rule) of
                  None \<Rightarrow> - 8 | Some x \<Rightarrow> if x = 0 then - 8 else x)
         in if harshAccelThreshold < acceleration
            then [(''harsh_acceleration'', ''medium'', MetaAcceleration (Num acceleration))]
            else if acceleration < harshBrakeThreshold
            then [(''harsh_braking'', ''medium'', MetaDeceleration (Num \<bar>acceleration\<bar>))]
            else [])"
    unfolding checkHarshDriving_two_rows[OF l2] q Let_def or_default_def
    by simp
next
  assume r: "rows = recent_rows (vehicleId data) 3 stored" and l: "2 \<le> length rows"
  then have "recent_rows (vehicleId data) 3 stored \<noteq> []" by auto
  from recent_rows_hd[OF this] r
  show "hd rows \<in> set stored \<and> loc_vehicle_id (hd rows) = vehicleId data \<and>
      (\<forall>r \<in> set stored. loc_vehicle_id r = vehicleId data \<longrightarrow> loc_timestamp r \<le> loc_timestamp (hd rows))"
    by simp
qed

text \<open>With an older sample stored as well: 40 mph at 10 s, then 10 mph at 12 s
  (-15 mph/s, harsh braking) or at 20 s (-3 mph/s, nothing); 10 mph at 10 s, then 40 mph
  at 12 s (15 mph/s, harsh acceleration). With a single stored sample, nothing.\<close>

theorem harsh_driving_rule_witness:
  "recent_rows ''veh-1'' 3 [sample_row 0 0 30 0, sample_row 0 0 40 10000] =
     [sample_row 0 0 40 10000, sample_row 0 0 30 0] \<and>
   map (\<lambda>c. (alertType c, severity c, alert_metadata c))
     (checkHarshDriving (sample_rule ''harsh_driving'' no_conditions) (sample_data 10 12000)
        (Some (recent_rows ''veh-1'' 3 [sample_row 0 0 30 0, sample_row 0 0 40 10000])))
     = [(''harsh_braking'', ''medium'', MetaDeceleration (Num 15))] \<and>
   checkHarshDriving (sample_rule ''harsh_driving'' no_conditions) (sample_data 10 20000)
     (Some (recent_rows ''veh-1'' 3 [sample_row 0 0 30 0, sample_row 0 0 40 10000])) = [] \<and>
   map (\<lambda>c. (alertType c, severity c, alert_metadata c))
     (checkHarshDriving (sample_rule ''harsh_driving'' no_conditions) (sample_data 40 12000)
        (Some (recent_rows ''veh-1'' 3 [sample_row 0 0 30 0, sample_row 0 0 10 10000])))
     = [(''harsh_acceleration'', ''medium'', MetaAcceleration (Num 15))] \<and>
   checkHarshDriving (sample_rule ''harsh_driving'' no_conditions) (sample_data 10 12000)
     (Some (recent_rows ''veh-1'' 3 [sample_row 0 0 40 10000])) = []"
proof -
  let ?stored = "[sample_row 0 0 30 0, sample_row 0 0 40 10000]"
  let ?slow = "[sample_row 0 0 30 0, sample_row 0 0 10 10000]"
  let ?rule = "sample_rule ''harsh_driving'' no_conditions"
  have rows: "recent_rows ''veh-1'' 3 ?stored = [sample_row 0 0 40 10000, sample_row 0 0 30 0]"
    by (simp add: recent_rows_def sample_row_def)
  have braking: "map (\<lambda>c. (alertType c, severity c, alert_metadata c))
     (checkHarshDriving ?rule (sample_data 10 12000) (Some (recent_rows ''veh-1'' 3 ?stored)))
     = [(''harsh_braking'', ''medium'', MetaDeceleration (Num 15))]"
    using harsh_driving_rule[of ?rule "sample_data 10 12000" "recent_rows ''veh-1'' 3 ?stored" ?stored]
    by (simp add: recent_rows_def sample_defs)
  have gentle: "map (\<lambda>c. (alertType c, severity c, alert_metadata c))
     (checkHarshDriving ?rule (sample_data 10 20000) (Some (recent_rows ''veh-1'' 3 ?stored))) = []"
    using harsh_driving_rule[of ?rule "sample_data 10 20000" "recent_rows ''veh-1'' 3 ?stored" ?stored]
    by (simp add: recent_rows_def sample_defs)
  have speeding_up: "map (\<lambda>c. (alertType c, severity c, alert_metadata c))
     (checkHarshDriving ?rule (sample_data 40 12000) (Some (recent_rows ''veh-1'' 3 ?slow)))
     = [(''harsh_acceleration'', ''medium'', MetaAcceleration (Num 15))]"
    using harsh_driving_rule[of ?rule "sample_data 40 12000" "recent_rows ''veh-1'' 3 ?slow" ?slow]
    by (simp add: recent_rows_def sample_defs)
  have single: "checkHarshDriving ?rule (sample_data 10 12000)
     (Some (recent_rows ''veh-1'' 3 [sample_row 0 0 40 10000])) = []"
    using harsh_driving_rule[of ?rule "sample_data 10 12000"
        "recent_rows ''veh-1'' 3 [sample_row 0 0 40 10000]" "[sample_row 0 0 40 10000]"]
    by (simp add: recent_rows_def sample_defs)
  from rows braking gentle speeding_up single show ?thesis by simp
qed

text \<open>
  C10. The claim asks that two samples with equal timestamps give a well-defined
  acceleration and no candidate. The rule divides by the zero time difference: a sample
  at 20 mph whose newest stored sample, at 10 mph, carries the same timestamp gets the
  acceleration \<open>Infinity\<close> and a \<open>harsh_acceleration\<close> candidate; with the speeds exchanged
  the quotient is \<open>-Infinity\<close> and the candidate is \<open>harsh_braking\<close>.
\<close>

theorem harsh_driving_equal_timestamps:
  "map (\<lambda>c. (alertType c, alert_metadata c))
     (checkHarshDriving (sample_rule ''harsh_driving'' no_conditions) (sample_data 20 1000)
        (Some [sample_row 0 0 10 1000, sample_row 0 0 10 0]))
     = [(''harsh_acceleration'', MetaAcceleration PosInf)] \<and>
   map (\<lambda>c. (alertType c, alert_metadata c))
     (checkHarshDriving (sample_rule ''harsh_driving'' no_conditions) (sample_data 10 1000)
        (Some [sample_row 0 0 20 1000, sample_row 0 0 10 0]))
     = [(''harsh_braking'', MetaDeceleration PosInf)]"
  by (simp add: checkHarshDriving_def sample_defs or_default_def js_div_def)

section \<open>Fuel theft (C9)\<close>

text \<open>
  C9. For a sample whose fuel level is exactly 0 the fuel-theft rule emits no candidate,
  whatever the stored samples are.
\<close>

theorem fuel_theft_zero_level:
  "fuelLevel data = Some 0 \<Longrightarrow> checkFuelTheft rule data recentFuel = []"
  by (simp add: checkFuelTheft_def)

text \<open>A stationary vehicle whose level was 50 ten minutes ago: at level 0 nothing is
  emitted, at level 1 the same history gives a \<open>fuel_theft\<close> candidate.\<close>

theorem fuel_theft_zero_level_witness:
  "fuelLevel ((sample_data 0 600000)\<lparr>fuelLevel := Some 0\<rparr>) = Some 0 \<and>
   checkFuelTheft (sample_rule ''fuel_theft'' no_conditions)
     ((sample_data 0 600000)\<lparr>fuelLevel := Some 0\<rparr>)
     (Some [(sample_row 0 0 0 0)\<lparr>loc_fuel_level := Some 50\<rparr>,
            (sample_row 0 0 0 (- 600000))\<lparr>loc_fuel_level := Some 50\<rparr>]) = [] \<and>
   map alertType
     (checkFuelTheft (sample_rule ''fuel_theft'' no_conditions)
        ((sample_data 0 600000)\<lparr>fuelLevel := Some 1\<rparr>)
        (Some [(sample_row 0 0 0 0)\<lparr>loc_fuel_level := Some 50\<rparr>,
               (sample_row 0 0 0 (- 600000))\<lparr>loc_fuel_level := Some 50\<rparr>])) = [''fuel_theft'']"
proof -
  have zero: "fuelLevel ((sample_data 0 600000)\<lparr>fuelLevel := Some 0\<rparr>) = Some 0" by simp
  show ?thesis
    using zero fuel_theft_zero_level[OF zero, of "sample_rule ''fuel_theft'' no_conditions"
        "Some [(sample_row 0 0 0 0)\<lparr>loc_fuel_level := Some 50\<rparr>,
               (sample_row 0 0 0 (- 600000))\<lparr>loc_fuel_level := Some 50\<rparr>]"]
    by (simp add: checkFuelTheft_def sample_defs)
qed

section \<open>Geofence transitions (C3)\<close>

lemma geofence_loop_sound:
  "(tr, g) \<in> set (geofence_loop inside point prev gs) \<Longrightarrow>
     g \<in> set gs \<and>
     (\<exists>rows. prev = Some rows \<and> 1 < length rows \<and>
        (case tr of
           Entry \<Rightarrow> inside point g = Some True \<and>
                    inside (loc_latitude (rows ! 1), loc_longitude (rows ! 1)) g = Some False \<and>
                    alert_on_entry g
         | Exit \<Rightarrow> inside point g = Some False \<and>
                   inside (loc_latitude (rows ! 1), loc_longitude (rows ! 1)) g = Some True \<and>
                   alert_on_exit g))"
proof (induction gs)
  case Nil
  then show ?case by simp
next
  case (Cons a gs)
  show ?case
  proof (cases "inside point a")
    case None
    with Cons.prems show ?thesis by simp
  next
    case cur: (Some isInside)
    show ?thesis
    proof (cases prev)
      case None
      with cur Cons show ?thesis by simp
    next
      case rows: (Some rows)
      show ?thesis
      proof (cases "1 < length rows")
        case False
        with cur rows Cons show ?thesis by simp
      next
        case long: True
        show ?thesis
        proof (cases "inside (loc_latitude (rows ! 1), loc_longitude (rows ! 1)) a")
          case None
          with cur rows long Cons.prems show ?thesis by simp
        next
          case was: (Some wasInside)
          from Cons.prems cur rows long was
          consider (here) "(tr, g) \<in> set (if isInside \<and> \<not> wasInside \<and> alert_on_entry a then [(Entry, a)]
                       else if \<not> isInside \<and> wasInside \<and> alert_on_exit a then [(Exit, a)]
                       else [])"
            | (later) "(tr, g) \<in> set (geofence_loop inside point prev gs)"
            by auto
          then show ?thesis
          proof cases
            case here
            then show ?thesis using cur rows long was
              by (auto split: if_splits)
          next
            case later
            from Cons.IH[OF later] show ?thesis by simp
          qed
        qed
      qed
    qed
  qed
qed


lemma geofence_loop_no_baseline:
  assumes "prev = None \<or> (\<exists>rows. prev = Some rows \<and> length rows \<le> 1)"
  shows "geofence_loop inside point prev gs = []"
proof (induction gs)
  case Nil
  show ?case by simp
next
  case (Cons a gs)
  show ?case
  proof (cases "inside point a")
    case None
    then show ?thesis by simp
  next
    case cur: (Some isInside)
    from assms show ?thesis
    proof
      assume "prev = None"
      with cur Cons show ?thesis by simp
    next
      assume "\<exists>rows. prev = Some rows \<and> length rows \<le> 1"
      then obtain rows where "prev = Some rows" and "\<not> 1 < length rows" by auto
      with cur Cons show ?thesis by simp
    qed
  qed
qed

lemma recent_rows_length:
  "length (recent_rows v n tbl) \<le> length (filter (\<lambda>r. loc_vehicle_id r = v) tbl)"
  by (simp add: recent_rows_def)

lemma unit_square_inside:
  "isPointInGeofence (1 / 2, 1 / 2) unit_square = Some True"
  "isPointInGeofence (2, 2) unit_square = Some False"
  "rt_isPointInGeofence (1 / 2, 1 / 2) unit_square = Some True"
  "rt_isPointInGeofence (2, 2) unit_square = Some False"
  by (simp_all add: isPointInGeofence_def rt_isPointInGeofence_def point_in_geofence_def
      unit_square_def isPointInPolygon_def crosses_def)

text \<open>
  What both loops compare: every entry (exit) alert belongs to an active geofence of the
  organization whose \<open>alert_on_entry\<close> (\<open>alert_on_exit\<close>) flag is set, with the current sample
  inside (outside) and the second row of \<open>prevLocation\<close> outside (inside); with at most one
  stored sample of the vehicle nothing is emitted.
\<close>

lemma geofence_alert_second_row:
  "(\<forall>c \<in> set (checkGeofenceViolation rule data geofences prevLocation).
      \<exists>tbl g rows.
        geofences = Some tbl \<and> g \<in> set tbl \<and> active g \<and>
        gf_organization_id g = rule_organizationId rule \<and>
        prevLocation = Some rows \<and> 1 < length rows \<and>
        alert_metadata c = MetaGeofence (gf_name g) \<and>
        ((alertType c = ''geofence_entry'' \<and> alert_on_entry g \<and>
          isPointInGeofence (latitude data, longitude data) g = Some True \<and>
          isPointInGeofence (loc_latitude (rows ! 1), loc_longitude (rows ! 1)) g = Some False) \<or>
         (alertType c = ''geofence_exit'' \<and> alert_on_exit g \<and>
          isPointInGeofence (latitude data, longitude data) g = Some False \<and>
          isPointInGeofence (loc_latitude (rows ! 1), loc_longitude (rows ! 1)) g = Some True))) \<and>
   (\<forall>call \<in> set (checkGeofences vid loc org geofences prevLocation).
      \<exists>tbl g rows.
        geofences = Some tbl \<and> g \<in> set tbl \<and> active g \<and> gf_organization_id g = org \<and>
        prevLocation = Some rows \<and> 1 < length rows \<and>
        fst (snd call) = gf_name g \<and>
        ((fst (snd (snd call)) = Entry \<and> alert_on_entry g \<and>
          rt_isPointInGeofence (lu_latitude loc, lu_longitude loc) g = Some True \<and>
          rt_isPointInGeofence (loc_latitude (rows ! 1), loc_longitude (rows ! 1)) g = Some False) \<or>
         (fst (snd (snd call)) = Exit \<and> alert_on_exit g \<and>
          rt_isPointInGeofence (lu_latitude loc, lu_longitude loc) g = Some False \<and>
          rt_isPointInGeofence (loc_latitude (rows ! 1), loc_longitude (rows ! 1)) g = Some True))) \<and>
   (length (filter (\<lambda>r. loc_vehicle_id r = v) stored) \<le> 1 \<longrightarrow>
      checkGeofenceViolation rule data geofences (Some (recent_rows v 2 stored)) = [] \<and>
      checkGeofences vid loc org geofences (Some (recent_rows v 2 stored)) = [])"
proof (intro conjI ballI impI)
  fix c
  assume "c \<in> set (checkGeofenceViolation rule data geofences prevLocation)"
  then obtain tbl tr g where tbl: "geofences = Some tbl"
    and c: "c = geofence_alert rule data (tr, g)"
    and mem: "(tr, g) \<in> set (geofence_loop isPointInGeofence (latitude data, longitude data)
                 prevLocation (active_geofences (rule_organizationId rule) tbl))"
    by (auto simp: checkGeofenceViolation_def split: option.splits)
  from geofence_loop_sound[OF mem] obtain rows where
    g: "g \<in> set (active_geofences (rule_organizationId rule) tbl)" and
    rows: "prevLocation = Some rows" "1 < length rows" and
    tr: "case tr of
           Entry \<Rightarrow> isPointInGeofence (latitude data, longitude data) g = Some True \<and>
                    isPointInGeofence (loc_latitude (rows ! 1), loc_longitude (rows ! 1)) g = Some False \<and>
                    alert_on_entry g
         | Exit \<Rightarrow> isPointInGeofence (latitude data, longitude data) g = Some False \<and>
                   isPointInGeofence (loc_latitude (rows ! 1), loc_longitude (rows ! 1)) g = Some True \<and>
                   alert_on_exit g"
    by blast
  from g have g': "g \<in> set tbl" "active g" "gf_organization_id g = rule_organizationId rule"
    by (auto simp: active_geofences_def)
  have meta: "alert_metadata c = MetaGeofence (gf_name g)" by (simp add: c geofence_alert_def)
  have kind: "(alertType c = ''geofence_entry'' \<and> alert_on_entry g \<and>
          isPointInGeofence (latitude data, longitude data) g = Some True \<and>
          isPointInGeofence (loc_latitude (rows ! 1), loc_longitude (rows ! 1)) g = Some False) \<or>
         (alertType c = ''geofence_exit'' \<and> alert_on_exit g \<and>
          isPointInGeofence (latitude data, longitude data) g = Some False \<and>
          isPointInGeofence (loc_latitude (rows ! 1), loc_longitude (rows ! 1)) g = Some True)"
    using tr by (cases tr) (simp_all add: c geofence_alert_def)
  from tbl g' rows meta kind
  show "\<exists>tbl g rows.
        geofences = Some tbl \<and> g \<in> set tbl \<and> active g \<and>
        gf_organization_id g = rule_organizationId rule \<and>
        prevLocation = Some rows \<and> 1 < length rows \<and>
        alert_metadata c = MetaGeofence (gf_name g) \<and>
        ((alertType c = ''geofence_entry'' \<and> alert_on_entry g \<and>
          isPointInGeofence (latitude data, longitude data) g = Some True \<and>
          isPointInGeofence (loc_latitude (rows ! 1), loc_longitude (rows ! 1)) g = Some False) \<or>
         (alertType c = ''geofence_exit'' \<and> alert_on_exit g \<and>
          isPointInGeofence (latitude data, longitude data) g = Some False \<and>
          isPointInGeofence (loc_latitude (rows ! 1), loc_longitude (rows ! 1)) g = Some True))"
    by blast
next
  fix call
  assume "call \<in> set (checkGeofences vid loc org geofences prevLocation)"
  then obtain tbl tr g where tbl: "geofences = Some tbl"
    and c: "call = (vid, gf_name g, tr, (lu_latitude loc, lu_longitude loc))"
    and mem: "(tr, g) \<in> set (geofence_loop rt_isPointInGeofence (lu_latitude loc, lu_longitude loc)
                 prevLocation (active_geofences org tbl))"
    by (auto simp: checkGeofences_def split: option.splits)
  from geofence_loop_sound[OF mem] obtain rows where
    g: "g \<in> set (active_geofences org tbl)" and
    rows: "prevLocation = Some rows" "1 < length rows" and
    tr: "case tr of
           Entry \<Rightarrow> rt_isPointInGeofence (lu_latitude loc, lu_longitude loc) g = Some True \<and>
                    rt_isPointInGeofence (loc_latitude (rows ! 1), loc_longitude (rows ! 1)) g = Some False \<and>
                    alert_on_entry g
         | Exit \<Rightarrow> rt_isPointInGeofence (lu_latitude loc, lu_longitude loc) g = Some False \<and>
                   rt_isPointInGeofence (loc_latitude (rows ! 1), loc_longitude (rows ! 1)) g = Some True \<and>
                   alert_on_exit g"
    by blast
  from g have g': "g \<in> set tbl" "active g" "gf_organization_id g = org"
    by (auto simp: active_geofences_def)
  have name: "fst (snd call) = gf_name g" by (simp add: c)
  have kind: "(fst (snd (snd call)) = Entry \<and> alert_on_entry g \<and>
          rt_isPointInGeofence (lu_latitude loc, lu_longitude loc) g = Some True \<and>
          rt_isPointInGeofence (loc_latitude (rows ! 1), loc_longitude (rows ! 1)) g = Some False) \<or>
         (fst (snd (snd call)) = Exit \<and> alert_on_exit g \<and>
          rt_isPointInGeofence (lu_latitude loc, lu_longitude loc) g = Some False \<and>
          rt_isPointInGeofence (loc_latitude (rows ! 1), loc_longitude (rows ! 1)) g = Some True)"
    using tr by (cases tr) (simp_all add: c)
  from tbl g' rows name kind
  show "\<exists>tbl g rows.
        geofences = Some tbl \<and> g \<in> set tbl \<and> active g \<and> gf_organization_id g = org \<and>
        prevLocation = Some rows \<and> 1 < length rows \<and>
        fst (snd call) = gf_name g \<and>
        ((fst (snd (snd call)) = Entry \<and> alert_on_entry g \<and>
          rt_isPointInGeofence (lu_latitude loc, lu_longitude loc) g = Some True \<and>
          rt_isPointInGeofence (loc_latitude (rows ! 1), loc_longitude (rows ! 1)) g = Some False) \<or>
         (fst (snd (snd call)) = Exit \<and> alert_on_exit g \<and>
          rt_isPointInGeofence (lu_latitude loc, lu_longitude loc) g = Some False \<and>
          rt_isPointInGeofence (loc_latitude (rows ! 1), loc_longitude (rows ! 1)) g = Some True))"
    by blast
next
  assume "length (filter (\<lambda>r. loc_vehicle_id r = v) stored) \<le> 1"
  with recent_rows_length[of v 2 stored] have "length (recent_rows v 2 stored) \<le> 1" by simp
  then have base: "\<And>inside point gs.
      geofence_loop inside point (Some (recent_rows v 2 stored)) gs = []"
    by (intro geofence_loop_no_baseline) simp
  show "checkGeofenceViolation rule data geofences (Some (recent_rows v 2 stored)) = []"
    by (simp add: checkGeofenceViolation_def base split: option.splits)
  show "checkGeofences vid loc org geofences (Some (recent_rows v 2 stored)) = []"
    by (simp add: checkGeofences_def base split: option.splits)
qed

text \<open>
  \<open>RealTimeService\<close> stores the sample before it checks. When the sample is newer than
  every stored sample of the vehicle, the query returns it first, and the second row is
  the newest sample stored before: the event that immediately precedes.
\<close>

lemma insort_key_snoc:
  "f a \<le> f x \<Longrightarrow> \<forall>y \<in> set ys. f y \<le> f x \<Longrightarrow> insort_key f a (ys @ [x]) = insort_key f a ys @ [x]"
  by (induction ys) auto

lemma sort_key_snoc:
  "\<forall>y \<in> set xs. f y \<le> f x \<Longrightarrow> sort_key f (xs @ [x]) = sort_key f xs @ [x]"
proof (induction xs)
  case Nil
  then show ?case by simp
next
  case (Cons a xs)
  then have "sort_key f (xs @ [x]) = sort_key f xs @ [x]" by simp
  moreover have "f a \<le> f x" using Cons.prems by simp
  moreover have "\<forall>y \<in> set (sort_key f xs). f y \<le> f x" using Cons.prems by simp
  ultimately show ?case by (simp add: insort_key_snoc)
qed

lemma recent_rows_after_store:
  assumes "\<forall>r \<in> set stored. loc_vehicle_id r = vid \<longrightarrow> loc_timestamp r < lu_timestamp loc"
  shows "recent_rows vid 2 (stored @ [stored_row vid loc]) =
           stored_row vid loc # recent_rows vid 1 stored"
proof -
  let ?own = "filter (\<lambda>r. loc_vehicle_id r = vid) stored"
  have older: "\<forall>y \<in> set ?own. loc_timestamp y \<le> loc_timestamp (stored_row vid loc)"
    using assms by (auto simp: stored_row_def)
  have "filter (\<lambda>r. loc_vehicle_id r = vid) (stored @ [stored_row vid loc]) = ?own @ [stored_row vid loc]"
    by (simp add: stored_row_def)
  then have "sort_key loc_timestamp (filter (\<lambda>r. loc_vehicle_id r = vid) (stored @ [stored_row vid loc]))
             = sort_key loc_timestamp ?own @ [stored_row vid loc]"
    using sort_key_snoc[OF older] by simp
  then show ?thesis by (simp add: recent_rows_def)
qed

lemma rt_geofences_compare_preceding:
  assumes older: "\<forall>r \<in> set stored. loc_vehicle_id r = vid \<longrightarrow> loc_timestamp r < lu_timestamp loc"
    and call: "call \<in> set (rt_store_and_checkGeofences vid loc org geofences stored)"
  shows "\<exists>tbl g prev.
           geofences = Some tbl \<and> g \<in> set tbl \<and> active g \<and> gf_organization_id g = org \<and>
           prev \<in> set stored \<and> loc_vehicle_id prev = vid \<and>
           (\<forall>r \<in> set stored. loc_vehicle_id r = vid \<longrightarrow> loc_timestamp r \<le> loc_timestamp prev) \<and>
           fst (snd call) = gf_name g \<and>
           ((fst (snd (snd call)) = Entry \<and> alert_on_entry g \<and>
             rt_isPointInGeofence (lu_latitude loc, lu_longitude loc) g = Some True \<and>
             rt_isPointInGeofence (loc_latitude prev, loc_longitude prev) g = Some False) \<or>
            (fst (snd (snd call)) = Exit \<and> alert_on_exit g \<and>
             rt_isPointInGeofence (lu_latitude loc, lu_longitude loc) g = Some False \<and>
             rt_isPointInGeofence (loc_latitude prev, loc_longitude prev) g = Some True))"
proof -
  let ?rows = "stored_row vid loc # recent_rows vid 1 stored"
  from call have call': "call \<in> set (checkGeofences vid loc org geofences (Some ?rows))"
    by (simp add: rt_store_and_checkGeofences_def recent_rows_after_store[OF older])
  from conjunct1[OF conjunct2[OF geofence_alert_second_row], THEN bspec, OF call']
  obtain tbl g rows where tbl: "geofences = Some tbl" "g \<in> set tbl" "active g" "gf_organization_id g = org"
    and rows: "Some ?rows = Some rows" "1 < length rows"
    and name: "fst (snd call) = gf_name g"
    and kind: "(fst (snd (snd call)) = Entry \<and> alert_on_entry g \<and>
          rt_isPointInGeofence (lu_latitude loc, lu_longitude loc) g = Some True \<and>
          rt_isPointInGeofence (loc_latitude (rows ! 1), loc_longitude (rows ! 1)) g = Some False) \<or>
         (fst (snd (snd call)) = Exit \<and> alert_on_exit g \<and>
          rt_isPointInGeofence (lu_latitude loc, lu_longitude loc) g = Some False \<and>
          rt_isPointInGeofence (loc_latitude (rows ! 1), loc_longitude (rows ! 1)) g = Some True)"
    by blast
  from rows have ne: "recent_rows vid 1 stored \<noteq> []" by auto
  from rows ne have second: "rows ! 1 = hd (recent_rows vid 1 stored)"
    by (cases "recent_rows vid 1 stored") auto
  from recent_rows_hd[OF ne] second
  have prev: "rows ! 1 \<in> set stored" "loc_vehicle_id (rows ! 1) = vid"
    "\<forall>r \<in> set stored. loc_vehicle_id r = vid \<longrightarrow> loc_timestamp r \<le> loc_timestamp (rows ! 1)"
    by simp_all
  from tbl prev name kind show ?thesis by blast
qed

text \<open>
  C3. The claim asks that an entry alert is emitted only when the membership of the
  current event differs from that of the immediately preceding event of the vehicle.
  \<open>RealTimeAlertService.processVehicleData\<close> hands the sample to the rules without storing
  it, so the second row that \<open>checkGeofenceViolation\<close> reads is the event before the
  preceding one. A vehicle stored outside the unit square at 0 and inside it at 1 s, and
  still inside at 2 s, gets an entry alert at 2 s although the preceding event was
  inside already. \<open>RealTimeService\<close>, storing first, calls for no alert on the same
  history.
\<close>

theorem geofence_entry_against_older_sample:
  "recent_rows ''veh-1'' 2 [sample_row 2 2 20 0, sample_row (1 / 2) (1 / 2) 20 1000]
     = [sample_row (1 / 2) (1 / 2) 20 1000, sample_row 2 2 20 0] \<and>
   isPointInGeofence (latitude (sample_data 20 2000), longitude (sample_data 20 2000)) unit_square
     = Some True \<and>
   isPointInGeofence (loc_latitude (sample_row (1 / 2) (1 / 2) 20 1000),
                      loc_longitude (sample_row (1 / 2) (1 / 2) 20 1000)) unit_square
     = Some True \<and>
   map alertType
     (checkGeofenceViolation (sample_rule ''geofence'' no_conditions) (sample_data 20 2000)
        (Some [unit_square])
        (Some (recent_rows ''veh-1'' 2 [sample_row 2 2 20 0, sample_row (1 / 2) (1 / 2) 20 1000])))
     = [''geofence_entry''] \<and>
   rt_store_and_checkGeofences ''veh-1'' (sample_update (1 / 2) (1 / 2) 20 2000) ''org-1''
     (Some [unit_square]) [sample_row 2 2 20 0, sample_row (1 / 2) (1 / 2) 20 1000] = []"
proof -
  let ?rule = "sample_rule ''geofence'' no_conditions"
  let ?data = "sample_data 20 2000"
  let ?loc = "sample_update (1 / 2) (1 / 2) 20 2000"
  let ?stored = "[sample_row 2 2 20 0, sample_row (1 / 2) (1 / 2) 20 1000]"
  have rows: "recent_rows ''veh-1'' 2 ?stored = [sample_row (1 / 2) (1 / 2) 20 1000, sample_row 2 2 20 0]"
    by (simp add: recent_rows_def sample_row_def)
  have rows': "recent_rows ''veh-1'' 2
        [sample_row 2 2 20 0, sample_row (1 / 2) (1 / 2) 20 1000, stored_row ''veh-1'' ?loc]
      = [stored_row ''veh-1'' ?loc, sample_row (1 / 2) (1 / 2) 20 1000]"
    by (simp add: recent_rows_def sample_row_def stored_row_def sample_update_def)
  have act: "active_geofences ''org-1'' [unit_square] = [unit_square]"
    by (simp add: active_geofences_def unit_square_def)
  have prev: "loc_latitude (sample_row 2 2 20 0) = 2" "loc_longitude (sample_row 2 2 20 0) = 2"
    "loc_latitude (sample_row (1 / 2) (1 / 2) 20 1000) = 1 / 2"
    "loc_longitude (sample_row (1 / 2) (1 / 2) 20 1000) = 1 / 2"
    by (simp_all add: sample_row_def)
  have flag: "alert_on_entry unit_square" "alert_on_exit unit_square"
    by (simp_all add: unit_square_def)
  have cur: "latitude ?data = 1 / 2" "longitude ?data = 1 / 2" "rule_organizationId ?rule = ''org-1''"
    "lu_latitude ?loc = 1 / 2" "lu_longitude ?loc = 1 / 2"
    by (simp_all add: sample_data_def sample_rule_def sample_update_def)
  have inside: "isPointInGeofence (latitude ?data, longitude ?data) unit_square = Some True"
    "isPointInGeofence (loc_latitude (sample_row (1 / 2) (1 / 2) 20 1000),
                        loc_longitude (sample_row (1 / 2) (1 / 2) 20 1000)) unit_square = Some True"
    by (simp_all add: cur prev unit_square_inside)
  have alerts: "checkGeofenceViolation ?rule ?data (Some [unit_square])
                  (Some (recent_rows ''veh-1'' 2 ?stored))
                = [geofence_alert ?rule ?data (Entry, unit_square)]"
    by (simp add: checkGeofenceViolation_def rows cur act unit_square_inside prev flag)
  then have entry: "map alertType (checkGeofenceViolation ?rule ?data (Some [unit_square])
                  (Some (recent_rows ''veh-1'' 2 ?stored))) = [''geofence_entry'']"
    by (simp add: geofence_alert_def)
  have sibling: "rt_store_and_checkGeofences ''veh-1'' ?loc ''org-1'' (Some [unit_square]) ?stored = []"
    by (simp add: rt_store_and_checkGeofences_def checkGeofences_def rows' cur act
        unit_square_inside prev flag)
  from rows inside entry sibling show ?thesis by blast
qed

section \<open>Device offline (C8)\<close>

text \<open>
  Against C8 as stated: a vehicle silent for six minutes is checked at minute 6 and at
  minute 7. Each check produces one \<open>device_offline\<close> candidate, but the second is
  discarded as a duplicate of the first, so one alert is persisted, not one per tick.
\<close>

theorem device_offline_counterexample:
  "length (checkDeviceOffline (sample_rule ''device_offline'' no_conditions) (sample_data 0 0) 360000) = 1 \<and>
   length (checkDeviceOffline (sample_rule ''device_offline'' no_conditions) (sample_data 0 0) 420000) = 1 \<and>
   length (offline_tick (sample_rule ''device_offline'' no_conditions) (sample_data 0 0) 420000
            (offline_tick (sample_rule ''device_offline'' no_conditions) (sample_data 0 0) 360000 [])) = 1"
  by (simp add: checkDeviceOffline_def offline_tick_def Let_def createAlert_answered is_duplicate_of_def
      sample_defs or_default_def new_alert_row_def)

text \<open>
  C8, amended. When the wall-clock time since the latest sample exceeds the offline
  threshold (5 minutes unless the rule sets another), a check produces exactly one
  \<open>device_offline\<close> candidate of severity high, and the candidate is persisted only if no
  \<open>device_offline\<close> alert of the vehicle was persisted in the preceding 30 minutes (else the
  table is unchanged); when the time since the latest sample does not exceed the
  threshold, as after a new sample, the check produces no candidate and persists nothing.
\<close>

theorem device_offline_tick:
  "(or_default (offlineThreshold (rule_conditions rule)) 5 < real_of_int (now - timestamp data) / 60000 \<longrightarrow>
      map (\<lambda>c. (alertType c, severity c, alert_organizationId c, alert_vehicleId c))
          (checkDeviceOffline rule data now)
        = [(''device_offline'', ''high'', rule_organizationId rule, vehicleId data)] \<and>
      offline_tick rule data now alerts =
        (if \<exists>r \<in> set alerts. organization_id r = rule_organizationId rule \<and>
               vehicle_id r = vehicleId data \<and> alert_type r = ''device_offline'' \<and>
               now - 30 * 60 * 1000 \<le> created_at r
         then alerts
         else alerts @ [new_alert_row (hd (checkDeviceOffline rule data now)) now])) \<and>
   (\<not> or_default (offlineThreshold (rule_conditions rule)) 5 < real_of_int (now - timestamp data) / 60000 \<longrightarrow>
      checkDeviceOffline rule data now = [] \<and> offline_tick rule data now alerts = alerts)"
  by (auto simp: checkDeviceOffline_def offline_tick_def Let_def createAlert_answered is_duplicate_of_def)

text \<open>Silent since 0: the check at minute 6 persists one alert, the check at minute 7
  none; after a sample at 400 s the check at minute 7 produces nothing.\<close>

theorem device_offline_tick_witness:
  "(let rule = sample_rule ''device_offline'' no_conditions;
        first = offline_tick rule (sample_data 0 0) 360000 []
    in map (\<lambda>c. (alertType c, severity c, alert_organizationId c, alert_vehicleId c))
           (checkDeviceOffline rule (sample_data 0 0) 360000)
         = [(''device_offline'', ''high'', ''org-1'', ''veh-1'')] \<and>
       map (\<lambda>r. (alert_type r, row_severity r, created_at r)) first
         = [(''device_offline'', ''high'', 360000)] \<and>
       offline_tick rule (sample_data 0 0) 420000 first = first \<and>
       checkDeviceOffline rule (sample_data 0 400000) 420000 = [] \<and>
       offline_tick rule (sample_data 0 400000) 420000 first = first)"
proof -
  let ?rule = "sample_rule ''device_offline'' no_conditions"
  let ?first = "offline_tick ?rule (sample_data 0 0) 360000 []"
  have thr: "or_default (offlineThreshold (rule_conditions ?rule)) 5 = 5"
    by (simp add: sample_defs or_default_def)
  have t1: "map (\<lambda>c. (alertType c, severity c, alert_organizationId c, alert_vehicleId c))
           (checkDeviceOffline ?rule (sample_data 0 0) 360000)
         = [(''device_offline'', ''high'', ''org-1'', ''veh-1'')] \<and>
       ?first = [new_alert_row (hd (checkDeviceOffline ?rule (sample_data 0 0) 360000)) 360000]"
    using device_offline_tick[of ?rule 360000 "sample_data 0 0" "[]"] thr
    by (simp add: sample_defs)
  then have row: "map (\<lambda>r. (organization_id r, vehicle_id r, alert_type r, row_severity r, created_at r)) ?first
         = [(''org-1'', ''veh-1'', ''device_offline'', ''high'', 360000)]"
    by (cases "checkDeviceOffline ?rule (sample_data 0 0) 360000") (auto simp: new_alert_row_def)
  have t2: "offline_tick ?rule (sample_data 0 0) 420000 ?first = ?first"
    using device_offline_tick[of ?rule 420000 "sample_data 0 0" ?first] thr row
    by (auto simp: sample_defs)
  have t3: "checkDeviceOffline ?rule (sample_data 0 400000) 420000 = [] \<and>
        offline_tick ?rule (sample_data 0 400000) 420000 ?first = ?first"
    using device_offline_tick[of ?rule 420000 "sample_data 0 400000" ?first] thr
    by (simp add: sample_defs)
  from t1 row t2 t3 show ?thesis unfolding Let_def by auto
qed

section \<open>Trips (C5)\<close>

lemma haversine_examples:
  "haversine_c 0 0 0 0 = 0"
  "haversine_c 0 0 0 180 = pi"
  "haversine_c 0 180 0 0 = pi"
  by (simp_all add: haversine_c_def atan2_def)

lemma current_trip_Some:
  assumes "current_trip vid trips = Some ct"
  shows "ct \<in> set trips \<and> trip_vehicle_id ct = vid \<and> trip_status ct = ''in_progress''"
proof -
  let ?xs = "sort_key start_time
               (filter (\<lambda>t. trip_vehicle_id t = vid \<and> trip_status t = ''in_progress'') trips)"
  from assms obtain rest where "rev ?xs = ct # rest"
    by (auto simp: current_trip_def split: list.splits)
  then have "ct \<in> set (rev ?xs)" by simp
  then show ?thesis by simp
qed

lemma current_sample_trip: "current_trip ''veh-1'' [sample_trip] = Some sample_trip"
  by (simp add: current_trip_def sample_trip_def)

text \<open>
  Against C5 as stated: a trip opened at the origin, extended by a sample at longitude
  180 and then by a sample back at the origin, ends with the distance 0, while the
  haversine deltas between the consecutive samples add up to a positive length. The
  update stores the distance between the trip's start and the current sample.
\<close>

theorem trip_distance_counterexample:
  "updateTripData ''veh-1'' (sample_update 0 0 10 0) 0 1 [] = [sample_trip] \<and>
   map distance_km (updateTripData ''veh-1'' (sample_update 0 180 10 1000) 1000 2 [sample_trip])
     = [Some (6371 * pi)] \<and>
   map distance_km
     (updateTripData ''veh-1'' (sample_update 0 0 10 2000) 2000 3
        (updateTripData ''veh-1'' (sample_update 0 180 10 1000) 1000 2 [sample_trip]))
     = [Some 0] \<and>
   0 < rt_calculateDistance 0 0 0 180 + rt_calculateDistance 0 180 0 0"
proof -
  have first: "updateTripData ''veh-1'' (sample_update 0 0 10 0) 0 1 [] = [sample_trip]"
    by (simp add: updateTripData_def current_trip_def sample_update_def sample_trip_def)
  have second: "updateTripData ''veh-1'' (sample_update 0 180 10 1000) 1000 2 [sample_trip]
      = [sample_trip\<lparr> end_location_lat := Some 0, end_location_lng := Some 180,
                       distance_km := Some (6371 * pi), max_speed := Some 10, updated_at := 1000 \<rparr>]"
    by (simp add: updateTripData_def current_sample_trip Let_def)
       (simp add: sample_update_def sample_trip_def rt_calculateDistance_def haversine_examples)
  have cur: "current_trip ''veh-1''
      [sample_trip\<lparr> end_location_lat := Some 0, end_location_lng := Some 180,
                    distance_km := Some (6371 * pi), max_speed := Some 10, updated_at := 1000 \<rparr>]
      = Some (sample_trip\<lparr> end_location_lat := Some 0, end_location_lng := Some 180,
                    distance_km := Some (6371 * pi), max_speed := Some 10, updated_at := 1000 \<rparr>)"
    by (simp add: current_trip_def sample_trip_def)
  have third: "map distance_km
     (updateTripData ''veh-1'' (sample_update 0 0 10 2000) 2000 3
        [sample_trip\<lparr> end_location_lat := Some 0, end_location_lng := Some 180,
                    distance_km := Some (6371 * pi), max_speed := Some 10, updated_at := 1000 \<rparr>])
     = [Some 0]"
    by (simp add: updateTripData_def cur Let_def)
       (simp add: sample_update_def sample_trip_def rt_calculateDistance_def haversine_examples)
  have pos: "0 < rt_calculateDistance 0 0 0 180 + rt_calculateDistance 0 180 0 0"
    by (simp add: rt_calculateDistance_def haversine_examples)
  from first second third pos show ?thesis by simp
qed

text \<open>
  C5, amended. If the vehicle has no trip in progress and the sample's speed exceeds
  5 mph, a new trip in progress is inserted whose start location and start time are the
  sample's and whose maximum speed is the sample's speed; at a lower speed nothing
  changes. If a trip is in progress, the update sets its end location to the sample's
  location, its maximum speed to the maximum of the earlier maximum speed (0 if none)
  and the sample's speed, and its distance to the haversine distance between the trip's
  start location and the sample's location.
\<close>

theorem trip_update:
  "(current_trip vid trips = None \<and> 5 < lu_speed loc \<longrightarrow>
      (\<exists>t. updateTripData vid loc now new_id trips = trips @ [t] \<and>
           trip_vehicle_id t = vid \<and> trip_status t = ''in_progress'' \<and>
           start_location_lat t = lu_latitude loc \<and> start_location_lng t = lu_longitude loc \<and>
           start_time t = lu_timestamp loc \<and> max_speed t = Some (lu_speed loc))) \<and>
   (current_trip vid trips = None \<and> \<not> 5 < lu_speed loc \<longrightarrow>
      updateTripData vid loc now new_id trips = trips) \<and>
   (current_trip vid trips = Some ct \<longrightarrow>
      ct \<in> set trips \<and> trip_vehicle_id ct = vid \<and> trip_status ct = ''in_progress'' \<and>
      length (updateTripData vid loc now new_id trips) = length trips \<and>
      (\<exists>t \<in> set (updateTripData vid loc now new_id trips). trip_id t = trip_id ct) \<and>
      (\<forall>t \<in> set (updateTripData vid loc now new_id trips). trip_id t = trip_id ct \<longrightarrow>
         end_location_lat t = Some (lu_latitude loc) \<and>
         end_location_lng t = Some (lu_longitude loc) \<and>
         max_speed t = Some (max (case max_speed ct of None \<Rightarrow> 0 | Some m \<Rightarrow> m) (lu_speed loc)) \<and>
         distance_km t = Some (rt_calculateDistance (start_location_lat ct) (start_location_lng ct)
                                 (lu_latitude loc) (lu_longitude loc) / 1000)))"
proof (intro conjI impI)
  assume "current_trip vid trips = None \<and> 5 < lu_speed loc"
  then show "\<exists>t. updateTripData vid loc now new_id trips = trips @ [t] \<and>
           trip_vehicle_id t = vid \<and> trip_status t = ''in_progress'' \<and>
           start_location_lat t = lu_latitude loc \<and> start_location_lng t = lu_longitude loc \<and>
           start_time t = lu_timestamp loc \<and> max_speed t = Some (lu_speed loc)"
    by (simp add: updateTripData_def)
next
  assume "current_trip vid trips = None \<and> \<not> 5 < lu_speed loc"
  then show "updateTripData vid loc now new_id trips = trips"
    by (simp add: updateTripData_def)
next
  assume ct: "current_trip vid trips = Some ct"
  from current_trip_Some[OF ct]
  show "ct \<in> set trips" "trip_vehicle_id ct = vid" "trip_status ct = ''in_progress''" by simp_all
  show "length (updateTripData vid loc now new_id trips) = length trips"
    using ct by (simp add: updateTripData_def Let_def)
  show "\<exists>t \<in> set (updateTripData vid loc now new_id trips). trip_id t = trip_id ct"
  proof -
    from current_trip_Some[OF ct] have mem: "ct \<in> set trips" by simp
    define f :: "trip \<Rightarrow> trip" where "f = (\<lambda>t. if trip_id t = trip_id ct then
                          t\<lparr> end_location_lat := Some (lu_latitude loc),
                             end_location_lng := Some (lu_longitude loc),
                             distance_km := Some (rt_calculateDistance (start_location_lat ct)
                               (start_location_lng ct) (lu_latitude loc) (lu_longitude loc) / 1000),
                             max_speed := Some (max (case max_speed ct of
                                                       None \<Rightarrow> 0 | Some m \<Rightarrow> m) (lu_speed loc)),
                             updated_at := now \<rparr>
                        else t)"
    have upd: "updateTripData vid loc now new_id trips = map f trips"
      using ct by (simp add: updateTripData_def Let_def f_def)
    have same: "trip_id (f ct) = trip_id ct" by (simp add: f_def)
    from mem have "f ct \<in> set (map f trips)" by simp
    with same upd show ?thesis by metis
  qed
  show "\<forall>t \<in> set (updateTripData vid loc now new_id trips). trip_id t = trip_id ct \<longrightarrow>
         end_location_lat t = Some (lu_latitude loc) \<and>
         end_location_lng t = Some (lu_longitude loc) \<and>
         max_speed t = Some (max (case max_speed ct of None \<Rightarrow> 0 | Some m \<Rightarrow> m) (lu_speed loc)) \<and>
         distance_km t = Some (rt_calculateDistance (start_location_lat ct) (start_location_lng ct)
                                 (lu_latitude loc) (lu_longitude loc) / 1000)"
    using ct by (auto simp: updateTripData_def Let_def)
qed

text \<open>A first sample at 10 mph opens a trip and one at 3 mph does not; a sample at
  30 mph at longitude 180 extends the open trip.\<close>

theorem trip_update_witness:
  "current_trip ''veh-1'' [] = None \<and> 5 < lu_speed (sample_update 0 0 10 0) \<and>
   (\<exists>t. updateTripData ''veh-1'' (sample_update 0 0 10 0) 0 1 [] = [t] \<and>
        (start_location_lat t, start_location_lng t, start_time t, max_speed t, trip_status t)
          = (0, 0, 0, Some 10, ''in_progress'')) \<and>
   updateTripData ''veh-1'' (sample_update 0 0 3 0) 0 1 [] = [] \<and>
   current_trip ''veh-1'' [sample_trip] = Some sample_trip \<and>
   (\<exists>t. updateTripData ''veh-1'' (sample_update 0 180 30 1000) 1000 2 [sample_trip] = [t] \<and>
        (end_location_lat t, end_location_lng t, max_speed t, distance_km t)
          = (Some 0, Some 180, Some 30, Some (6371 * pi)))"
proof -
  have none: "current_trip ''veh-1'' [] = None" by (simp add: current_trip_def)
  have fast: "5 < lu_speed (sample_update 0 0 10 0)" by (simp add: sample_update_def)
  have slow: "\<not> 5 < lu_speed (sample_update 0 0 3 0)" by (simp add: sample_update_def)
  from trip_update[of "''veh-1''" "[]" "sample_update 0 0 10 0" 0 1 sample_trip] none fast
  have opened: "\<exists>t. updateTripData ''veh-1'' (sample_update 0 0 10 0) 0 1 [] = [t] \<and>
        (start_location_lat t, start_location_lng t, start_time t, max_speed t, trip_status t)
          = (0, 0, 0, Some 10, ''in_progress'')"
    by (auto simp: sample_update_def)
  from trip_update[of "''veh-1''" "[]" "sample_update 0 0 3 0" 0 1 sample_trip] none slow
  have idle: "updateTripData ''veh-1'' (sample_update 0 0 3 0) 0 1 [] = []" by simp
  note upd = trip_update[of "''veh-1''" "[sample_trip]" "sample_update 0 180 30 1000" 1000 2 sample_trip]
  from upd current_sample_trip
  obtain t where t: "updateTripData ''veh-1'' (sample_update 0 180 30 1000) 1000 2 [sample_trip] = [t]"
    and id: "trip_id t = trip_id sample_trip"
    by (cases "updateTripData ''veh-1'' (sample_update 0 180 30 1000) 1000 2 [sample_trip]") auto
  from upd current_sample_trip t id
  have "(end_location_lat t, end_location_lng t, max_speed t, distance_km t)
          = (Some 0, Some 180, Some 30, Some (6371 * pi))"
    by (simp add: sample_update_def sample_trip_def rt_calculateDistance_def haversine_examples)
  with t have extended: "\<exists>t. updateTripData ''veh-1'' (sample_update 0 180 30 1000) 1000 2 [sample_trip] = [t] \<and>
        (end_location_lat t, end_location_lng t, max_speed t, distance_km t)
          = (Some 0, Some 180, Some 30, Some (6371 * pi))"
    by blast
  from none fast opened idle current_sample_trip extended show ?thesis by blast
qed


section \<open>Speed limit resolver (C6)\<close>

lemma toFixed4_rounds:
  "fst (toFixed4 x) = (x < 0) \<and> \<bar>real (snd (toFixed4 x)) / 10000 - \<bar>x\<bar>\<bar> \<le> 1 / 20000"
proof -
  define y where "y = \<bar>x\<bar>"
  define m :: real where "m = of_int \<lfloor>y * 10000 + 1 / 2\<rfloor>"
  have "0 \<le> y" by (simp add: y_def)
  then have nonneg: "0 \<le> \<lfloor>y * 10000 + 1 / 2\<rfloor>" by simp
  then have n: "real (nat \<lfloor>y * 10000 + 1 / 2\<rfloor>) = m" by (simp add: m_def)
  have lo: "m \<le> y * 10000 + 1 / 2" unfolding m_def by (rule of_int_floor_le)
  have hi: "y * 10000 + 1 / 2 < m + 1" unfolding m_def by linarith
  from lo hi have "\<bar>m / 10000 - y\<bar> \<le> 1 / 20000" by linarith
  with n show ?thesis by (simp add: toFixed4_def y_def)
qed

lemma getSpeedLimit_fresh:
  "cache (cacheKey lat lng) = Some e \<Longrightarrow> now - cached_at e < 3600000 \<Longrightarrow>
   getSpeedLimit cache now lat lng reply fetched_at = Inr (limit e, cache, [])"
  by (simp add: getSpeedLimit_def Let_def)

lemma getSpeedLimit_lookup:
  "(\<forall>e. cache (cacheKey lat lng) = Some e \<longrightarrow> \<not> now - cached_at e < 3600000) \<Longrightarrow>
   getSpeedLimit cache now lat lng reply fetched_at =
     (case getSpeedLimit_try cache (cacheKey lat lng) reply fetched_at of
        Inl e \<Rightarrow> Inr (35, cache, [(lat, lng)]) | Inr r \<Rightarrow> Inr (fst r, snd r, [(lat, lng)]))"
  by (auto simp: getSpeedLimit_def Let_def split: option.splits)

lemma getSpeedLimit_try_Elements:
  "\<exists>v. getSpeedLimit_try cache key (Elements els) fetched_at =
         Inr (v, cache(key \<mapsto> \<lparr>limit = v, cached_at = fetched_at\<rparr>))"
  by (simp add: getSpeedLimit_try_def Let_def)

lemma sample_maxspeed: "parse_maxspeed ''45 mph'' = 45"
  by (simp add: parse_maxspeed_def is_digit_def digits_value_def)

text \<open>
  Against C6 as stated: \<open>RealTimeAlertService.getSpeedLimit\<close> answers from its cache
  without asking the external service, but \<open>RealTimeService.getSpeedLimit\<close> keeps no cache:
  two calls for the same coordinates, one right after the other and both answered, each
  ask the external service, and each return 35.
\<close>

theorem speed_limit_no_cache_counterexample:
  "getSpeedLimit [cacheKey (1 / 2) (1 / 2) \<mapsto> \<lparr>limit = 45, cached_at = 0\<rparr>] 1000 (1 / 2) (1 / 2)
      (Elements (Some [\<lparr>tags = Some \<lparr>maxspeed = Some ''45 mph''\<rparr>\<rparr>])) 1100
     = Inr (45, [cacheKey (1 / 2) (1 / 2) \<mapsto> \<lparr>limit = 45, cached_at = 0\<rparr>], []) \<and>
   map (rt_getSpeedLimit (1 / 2) (1 / 2)) [True, True]
     = [Inr (35, [(1 / 2, 1 / 2)]), Inr (35, [(1 / 2, 1 / 2)])]"
  by (simp add: getSpeedLimit_def rt_getSpeedLimit_def)

text \<open>
  C6, amended. \<open>RealTimeAlertService.getSpeedLimit\<close> always returns a limit to its caller.
  Its cache is keyed by the two coordinates rounded to four decimals (sign and rounded
  magnitude, within half a unit of the fourth decimal): while the entry under the key is
  less than one hour old the cached limit is returned, the external service is not
  asked and the cache is left alone; otherwise the service is asked, a failed lookup
  returns the default 35 and leaves the cache alone, and an answered lookup stores its
  limit under the key, where a later call for any coordinates with the same key finds it
  for an hour. \<open>RealTimeService.getSpeedLimit\<close> never fails either and returns 35 whether
  its lookup fails or not, but it keeps no cache and asks the external service at every
  call.
\<close>

theorem speed_limit_resolver:
  "(\<exists>v c' asked. getSpeedLimit cache now lat lng reply fetched_at = Inr (v, c', asked)) \<and>
   (\<forall>e. cache (cacheKey lat lng) = Some e \<and> now - cached_at e < 3600000 \<longrightarrow>
        getSpeedLimit cache now lat lng reply fetched_at = Inr (limit e, cache, [])) \<and>
   ((\<forall>e. cache (cacheKey lat lng) = Some e \<longrightarrow> \<not> now - cached_at e < 3600000) \<and>
    reply = FetchFailed \<longrightarrow>
        getSpeedLimit cache now lat lng reply fetched_at = Inr (35, cache, [(lat, lng)])) \<and>
   ((\<forall>e. cache (cacheKey lat lng) = Some e \<longrightarrow> \<not> now - cached_at e < 3600000) \<and>
    reply = Elements els \<longrightarrow>
        (\<exists>v. getSpeedLimit cache now lat lng reply fetched_at =
               Inr (v, cache(cacheKey lat lng \<mapsto> \<lparr>limit = v, cached_at = fetched_at\<rparr>), [(lat, lng)]) \<and>
             (cacheKey lat' lng' = cacheKey lat lng \<and> now' - fetched_at < 3600000 \<longrightarrow>
                getSpeedLimit (cache(cacheKey lat lng \<mapsto> \<lparr>limit = v, cached_at = fetched_at\<rparr>))
                  now' lat' lng' reply' fetched_at' =
                Inr (v, cache(cacheKey lat lng \<mapsto> \<lparr>limit = v, cached_at = fetched_at\<rparr>), [])))) \<and>
   cacheKey lat lng = ((lat < 0, nat \<lfloor>\<bar>lat\<bar> * 10000 + 1 / 2\<rfloor>), (lng < 0, nat \<lfloor>\<bar>lng\<bar> * 10000 + 1 / 2\<rfloor>)) \<and>
   \<bar>real (snd (toFixed4 lat)) / 10000 - \<bar>lat\<bar>\<bar> \<le> 1 / 20000 \<and>
   \<bar>real (snd (toFixed4 lng)) / 10000 - \<bar>lng\<bar>\<bar> \<le> 1 / 20000 \<and>
   rt_getSpeedLimit lat lng fetched = Inr (35, [(lat, lng)])"
proof (intro conjI allI impI)
  show "\<exists>v c' asked. getSpeedLimit cache now lat lng reply fetched_at = Inr (v, c', asked)"
  proof (cases "\<exists>e. cache (cacheKey lat lng) = Some e \<and> now - cached_at e < 3600000")
    case True
    then show ?thesis using getSpeedLimit_fresh by blast
  next
    case False
    then have stale: "\<forall>e. cache (cacheKey lat lng) = Some e \<longrightarrow> \<not> now - cached_at e < 3600000"
      by blast
    show ?thesis
      using stale
      by (cases "getSpeedLimit_try cache (cacheKey lat lng) reply fetched_at")
        (auto simp: getSpeedLimit_lookup)
  qed
next
  fix e
  assume "cache (cacheKey lat lng) = Some e \<and> now - cached_at e < 3600000"
  then show "getSpeedLimit cache now lat lng reply fetched_at = Inr (limit e, cache, [])"
    by (simp add: getSpeedLimit_fresh)
next
  assume "(\<forall>e. cache (cacheKey lat lng) = Some e \<longrightarrow> \<not> now - cached_at e < 3600000) \<and>
    reply = FetchFailed"
  then show "getSpeedLimit cache now lat lng reply fetched_at = Inr (35, cache, [(lat, lng)])"
    by (simp add: getSpeedLimit_lookup getSpeedLimit_try_def)
next
  assume a: "(\<forall>e. cache (cacheKey lat lng) = Some e \<longrightarrow> \<not> now - cached_at e < 3600000) \<and>
    reply = Elements els"
  obtain v where v: "getSpeedLimit_try cache (cacheKey lat lng) (Elements els) fetched_at =
         Inr (v, cache(cacheKey lat lng \<mapsto> \<lparr>limit = v, cached_at = fetched_at\<rparr>))"
    using getSpeedLimit_try_Elements by blast
  let ?c = "cache(cacheKey lat lng \<mapsto> \<lparr>limit = v, cached_at = fetched_at\<rparr>)"
  have first: "getSpeedLimit cache now lat lng reply fetched_at = Inr (v, ?c, [(lat, lng)])"
    using a v by (simp add: getSpeedLimit_lookup)
  have again: "cacheKey lat' lng' = cacheKey lat lng \<and> now' - fetched_at < 3600000 \<longrightarrow>
                getSpeedLimit ?c now' lat' lng' reply' fetched_at' = Inr (v, ?c, [])"
    by (auto intro!: getSpeedLimit_fresh[where e="\<lparr>limit = v, cached_at = fetched_at\<rparr>", simplified])
  from first again
  show "\<exists>v. getSpeedLimit cache now lat lng reply fetched_at =
               Inr (v, cache(cacheKey lat lng \<mapsto> \<lparr>limit = v, cached_at = fetched_at\<rparr>), [(lat, lng)]) \<and>
             (cacheKey lat' lng' = cacheKey lat lng \<and> now' - fetched_at < 3600000 \<longrightarrow>
                getSpeedLimit (cache(cacheKey lat lng \<mapsto> \<lparr>limit = v, cached_at = fetched_at\<rparr>))
                  now' lat' lng' reply' fetched_at' =
                Inr (v, cache(cacheKey lat lng \<mapsto> \<lparr>limit = v, cached_at = fetched_at\<rparr>), []))"
    by blast
next
  show "cacheKey lat lng = ((lat < 0, nat \<lfloor>\<bar>lat\<bar> * 10000 + 1 / 2\<rfloor>), (lng < 0, nat \<lfloor>\<bar>lng\<bar> * 10000 + 1 / 2\<rfloor>))"
    by (simp add: cacheKey_def toFixed4_def)
next
  show "\<bar>real (snd (toFixed4 lat)) / 10000 - \<bar>lat\<bar>\<bar> \<le> 1 / 20000" using toFixed4_rounds by blast
next
  show "\<bar>real (snd (toFixed4 lng)) / 10000 - \<bar>lng\<bar>\<bar> \<le> 1 / 20000" using toFixed4_rounds by blast
next
  show "rt_getSpeedLimit lat lng fetched = Inr (35, [(lat, lng)])" by (simp add: rt_getSpeedLimit_def)
qed

text \<open>An empty cache and a failed lookup give 35; an answered lookup with \<open>maxspeed\<close>
  "45 mph" gives 45 and caches it; the same and a nearby coordinate get 45 from the cache
  within the hour, and 35 once the hour is over and the lookup fails.\<close>

theorem speed_limit_resolver_witness:
  "getSpeedLimit Map.empty 0 (12345 / 100000) (- 3 / 10) FetchFailed 10
     = Inr (35, Map.empty, [(12345 / 100000, - 3 / 10)]) \<and>
   getSpeedLimit Map.empty 0 (12345 / 100000) (- 3 / 10)
     (Elements (Some [\<lparr>tags = Some \<lparr>maxspeed = Some ''45 mph''\<rparr>\<rparr>])) 10
     = Inr (45, [((False, 1235), (True, 3000)) \<mapsto> \<lparr>limit = 45, cached_at = 10\<rparr>],
            [(12345 / 100000, - 3 / 10)]) \<and>
   getSpeedLimit [((False, 1235), (True, 3000)) \<mapsto> \<lparr>limit = 45, cached_at = 10\<rparr>]
     100 (12345 / 100000) (- 3 / 10) FetchFailed 200
     = Inr (45, [((False, 1235), (True, 3000)) \<mapsto> \<lparr>limit = 45, cached_at = 10\<rparr>], []) \<and>
   getSpeedLimit [((False, 1235), (True, 3000)) \<mapsto> \<lparr>limit = 45, cached_at = 10\<rparr>]
     3600009 (1235 / 10000) (- 300004 / 1000000) FetchFailed 3600100
     = Inr (45, [((False, 1235), (True, 3000)) \<mapsto> \<lparr>limit = 45, cached_at = 10\<rparr>], []) \<and>
   getSpeedLimit [((False, 1235), (True, 3000)) \<mapsto> \<lparr>limit = 45, cached_at = 10\<rparr>]
     3600010 (1235 / 10000) (- 300004 / 1000000) FetchFailed 3600100
     = Inr (35, [((False, 1235), (True, 3000)) \<mapsto> \<lparr>limit = 45, cached_at = 10\<rparr>],
            [(1235 / 10000, - 300004 / 1000000)])"
proof -
  let ?hit = "[((False, 1235), (True, 3000)) \<mapsto> \<lparr>limit = 45, cached_at = 10\<rparr>]"
  let ?els = "Some [\<lparr>tags = Some \<lparr>maxspeed = Some ''45 mph''\<rparr>\<rparr>]"
  have key: "cacheKey (12345 / 100000) (- 3 / 10) = ((False, 1235), (True, 3000))"
    "cacheKey (1235 / 10000) (- 300004 / 1000000) = cacheKey (12345 / 100000) (- 3 / 10)"
    by (simp_all add: cacheKey_def toFixed4_def)
  have empty: "\<forall>e. Map.empty (cacheKey (12345 / 100000) (- 3 / 10)) = Some e \<longrightarrow> \<not> 0 - cached_at e < 3600000"
    by simp
  note miss = speed_limit_resolver[where cache = Map.empty and now = 0 and lat = "12345 / 100000"
      and lng = "- 3 / 10" and fetched_at = 10]
  have failed: "getSpeedLimit Map.empty 0 (12345 / 100000) (- 3 / 10) FetchFailed 10
      = Inr (35, Map.empty, [(12345 / 100000, - 3 / 10)])"
    using miss[where reply = FetchFailed] by simp
  have found: "getSpeedLimit Map.empty 0 (12345 / 100000) (- 3 / 10) (Elements ?els) 10
      = Inr (45, ?hit, [(12345 / 100000, - 3 / 10)])"
    by (simp add: getSpeedLimit_def getSpeedLimit_try_def cacheKey_def toFixed4_def sample_maxspeed)
  from miss[where reply = "Elements ?els" and els = ?els and lat' = "1235 / 10000"
      and lng' = "- 300004 / 1000000" and now' = 3600009 and reply' = FetchFailed
      and fetched_at' = 3600100] empty
  obtain v where v: "getSpeedLimit Map.empty 0 (12345 / 100000) (- 3 / 10) (Elements ?els) 10 =
         Inr (v, Map.empty(cacheKey (12345 / 100000) (- 3 / 10) \<mapsto> \<lparr>limit = v, cached_at = 10\<rparr>),
              [(12345 / 100000, - 3 / 10)])"
    and again: "cacheKey (1235 / 10000) (- 300004 / 1000000) = cacheKey (12345 / 100000) (- 3 / 10) \<and>
                3600009 - 10 < (3600000::int) \<longrightarrow>
         getSpeedLimit (Map.empty(cacheKey (12345 / 100000) (- 3 / 10) \<mapsto> \<lparr>limit = v, cached_at = 10\<rparr>))
           3600009 (1235 / 10000) (- 300004 / 1000000) FetchFailed 3600100 =
         Inr (v, Map.empty(cacheKey (12345 / 100000) (- 3 / 10) \<mapsto> \<lparr>limit = v, cached_at = 10\<rparr>), [])"
    by blast
  from v found have "v = 45" by simp
  with again key have fresh: "getSpeedLimit ?hit 3600009 (1235 / 10000) (- 300004 / 1000000) FetchFailed 3600100
      = Inr (45, ?hit, [])"
    by simp
  have stale: "getSpeedLimit ?hit 3600010 (1235 / 10000) (- 300004 / 1000000) FetchFailed 3600100
      = Inr (35, ?hit, [(1235 / 10000, - 300004 / 1000000)])"
    using speed_limit_resolver[where cache = ?hit and lat = "1235 / 10000"
      and lng = "- 300004 / 1000000" and reply = FetchFailed and fetched_at = 3600100
      and now = 3600010]
    by (simp add: cacheKey_def toFixed4_def)
  have hit: "getSpeedLimit ?hit 100 (12345 / 100000) (- 3 / 10) FetchFailed 200 = Inr (45, ?hit, [])"
    using speed_limit_resolver[where cache = ?hit and lat = "12345 / 100000"
      and lng = "- 3 / 10" and reply = FetchFailed and fetched_at = 200 and now = 100]
    by (simp add: cacheKey_def toFixed4_def)
  from failed found hit fresh stale show ?thesis by blast
qed

section \<open>Normalisation (C7)\<close>






end
